theory Spec2Isabelle
  imports Complex_Main "HOL-Library.Sublist"
begin

section \<open>Python values used by \<open>simulate\<close>\<close>

subsection \<open>Floats\<close>

text \<open>
  A Python float is an IEEE-754 binary64 value.  A finite non-zero double is a dyadic
  rational and is kept as exactly that rational; the two zeros, the infinities and NaN are
  separate constructors (\<open>Finite 0\<close> is \<open>+0.0\<close>).  Arithmetic computes the exact rational
  result and rounds it to the nearest double, ties to even, as the hardware does.
\<close>

datatype pyfloat = Finite rat | NegZero | PosInf | NegInf | NaN

function ilog :: "int \<Rightarrow> int \<Rightarrow> int" where
  \<comment> \<open>\<open>\<lfloor>log\<^sub>b n\<rfloor>\<close> for integers \<open>b \<ge> 2\<close> and \<open>n \<ge> 1\<close>\<close>
  "ilog b n = (if b < 2 \<or> n < b then 0 else 1 + ilog b (n div b))"
  by pat_completeness auto
termination
proof (relation "measure (\<lambda>(b, n). nat n)")
  show "wf (measure (\<lambda>(b::int, n::int). nat n))"
    by simp
next
  fix b n :: int
  assume "\<not> (b < 2 \<or> n < b)"
  then have "2 \<le> b" and "b \<le> n"
    by simp_all
  then have "n div b < n" and "0 < n"
    by (simp_all add: int_div_less_self)
  then show "((b, n div b), (b, n)) \<in> measure (\<lambda>(b, n). nat n)"
    by simp
qed

declare ilog.simps [simp del]

function natpow :: "rat \<Rightarrow> int \<Rightarrow> rat" where
  \<comment> \<open>\<open>b^e\<close> for \<open>e \<ge> 0\<close>, by repeated squaring\<close>
  "natpow b e =
     (if e \<le> 0 then 1
      else if even e then natpow (b * b) (e div 2)
      else b * natpow (b * b) (e div 2))"
  by pat_completeness auto
termination
  by (relation "measure (\<lambda>(b, e). nat e)") auto

declare natpow.simps [simp del]

definition pow_int :: "int \<Rightarrow> int \<Rightarrow> rat" where
  "pow_int b e = (if 0 \<le> e then natpow (of_int b) e else 1 / natpow (of_int b) (- e))"

definition flog :: "int \<Rightarrow> rat \<Rightarrow> int" where
  \<comment> \<open>\<open>\<lfloor>log\<^sub>b a\<rfloor>\<close> for a positive rational \<open>a\<close>\<close>
  "flog b a =
     (let (p, q) = quotient_of a;
          e0 = ilog b p - ilog b q
      in if pow_int b e0 \<le> a then e0 else e0 - 1)"

definition round_half_even :: "rat \<Rightarrow> int" where
  "round_half_even x =
     (let f = \<lfloor>x\<rfloor>; r = x - of_int f
      in if r < 1 / 2 then f
         else if 1 / 2 < r then f + 1
         else if even f then f else f + 1)"

definition signed_zero :: "bool \<Rightarrow> pyfloat" where
  "signed_zero neg = (if neg then NegZero else Finite 0)"

definition signed_inf :: "bool \<Rightarrow> pyfloat" where
  "signed_inf neg = (if neg then NegInf else PosInf)"

definition round_double :: "bool \<Rightarrow> rat \<Rightarrow> pyfloat" where
  \<comment> \<open>the double nearest to the magnitude \<open>a \<ge> 0\<close>, with the sign \<open>neg\<close>:
      53 significant bits, least exponent \<open>-1074\<close>, overflow beyond \<open>2^1024\<close>\<close>
  "round_double neg a =
     (if a = 0 then signed_zero neg
      else let e = max (flog 2 a - 52) (- 1074);
               v = of_int (round_half_even (a / pow_int 2 e)) * pow_int 2 e
           in if pow_int 2 1024 \<le> v then signed_inf neg
              else if v = 0 then signed_zero neg
              else Finite (if neg then - v else v))"

definition float_lit :: "int \<Rightarrow> int \<Rightarrow> pyfloat" where
  \<comment> \<open>a decimal literal of the source text, given by its digits and the number of digits
      after the point: \<open>0.8\<close> is \<open>float_lit 8 1\<close>\<close>
  "float_lit m k = round_double False (of_int m / pow_int 10 k)"

fun signbit :: "pyfloat \<Rightarrow> bool" where
  "signbit (Finite q) = (q < 0)"
| "signbit NegZero = True"
| "signbit PosInf = False"
| "signbit NegInf = True"
| "signbit NaN = False"

fun magnitude :: "pyfloat \<Rightarrow> rat" where
  "magnitude (Finite q) = \<bar>q\<bar>"
| "magnitude x = 0"

definition is_inf :: "pyfloat \<Rightarrow> bool" where
  "is_inf x = (x = PosInf \<or> x = NegInf)"

definition is_zero :: "pyfloat \<Rightarrow> bool" where
  "is_zero x = (x = Finite 0 \<or> x = NegZero)"

definition fmul :: "pyfloat \<Rightarrow> pyfloat \<Rightarrow> pyfloat" where
  \<comment> \<open>\<open>x * y\<close> on floats: never raises; an overflow gives an infinity\<close>
  "fmul x y =
     (if x = NaN \<or> y = NaN then NaN
      else if is_inf x \<or> is_inf y then
        (if is_zero x \<or> is_zero y then NaN else signed_inf (signbit x \<noteq> signbit y))
      else round_double (signbit x \<noteq> signbit y) (magnitude x * magnitude y))"

subsection \<open>Text of numbers\<close>

definition digit :: "int \<Rightarrow> char" where
  "digit d = ''0123456789'' ! nat (d mod 10)"

function digits10 :: "int \<Rightarrow> string" where
  \<comment> \<open>the decimal digits of \<open>n \<ge> 0\<close>\<close>
  "digits10 n = (if n < 10 then [digit n] else digits10 (n div 10) @ [digit n])"
  by pat_completeness auto
termination
  by (relation "measure (\<lambda>n. nat n)") auto

declare digits10.simps [simp del]

text \<open>
  \<open>repr\<close> of a float prints the shortest decimal digit string that reads back as the same
  double, and among those of that length the one nearest to the value.  \<open>shortest k n a\<close>
  tries \<open>n\<close>, \<open>n + 1\<close>, ... significant digits (\<open>k\<close> more lengths to try); seventeen digits
  always suffice for a double.  The result \<open>(d, e)\<close> stands for \<open>d * 10^e\<close>.
\<close>

fun shortest :: "nat \<Rightarrow> nat \<Rightarrow> rat \<Rightarrow> int \<times> int" where
  "shortest 0 n a =
     (let e = flog 10 a - int n + 1 in (round_half_even (a / pow_int 10 e), e))"
| "shortest (Suc k) n a =
     (let e = flog 10 a - int n + 1;
          s = a / pow_int 10 e;
          lo = \<lfloor>s\<rfloor>;
          hi = lo + 1;
          oklo = (round_double False (of_int lo * pow_int 10 e) = Finite a);
          okhi = (round_double False (of_int hi * pow_int 10 e) = Finite a)
      in if oklo \<and> okhi then (round_half_even s, e)
         else if oklo then (lo, e)
         else if okhi then (hi, e)
         else shortest k (Suc n) a)"

fun strip_zeros :: "string \<Rightarrow> string" where
  \<comment> \<open>drops the trailing zeros of a digit string, keeping one digit\<close>
  "strip_zeros ds = (if 1 < length ds \<and> last ds = CHR ''0'' then strip_zeros (butlast ds) else ds)"

declare strip_zeros.simps [simp del]

definition exp_str :: "int \<Rightarrow> string" where
  \<comment> \<open>the exponent of the scientific form: a sign and at least two digits\<close>
  "exp_str x =
     (if x < 0 then ''-'' else ''+'') @
     (if \<bar>x\<bar> < 10 then ''0'' else '''') @ digits10 \<bar>x\<bar>"

definition format_repr :: "string \<Rightarrow> int \<Rightarrow> string" where
  \<comment> \<open>lays out the digits \<open>ds\<close> of the value \<open>0.ds * 10^decpt\<close>: scientific form when
      \<open>decpt \<le> -4\<close> or \<open>decpt > 16\<close>, positional form with a fractional part otherwise\<close>
  "format_repr ds decpt =
     (if decpt \<le> - 4 \<or> 16 < decpt then
        take 1 ds @ (if 1 < length ds then ''.'' @ drop 1 ds else '''') @ ''e'' @ exp_str (decpt - 1)
      else if decpt \<le> 0 then ''0.'' @ replicate (nat (- decpt)) CHR ''0'' @ ds
      else if int (length ds) \<le> decpt then
        ds @ replicate (nat decpt - length ds) CHR ''0'' @ ''.0''
      else take (nat decpt) ds @ ''.'' @ drop (nat decpt) ds)"

definition float_str :: "pyfloat \<Rightarrow> string" where
  \<comment> \<open>\<open>str(x)\<close> for a float, which is its \<open>repr\<close>\<close>
  "float_str x =
     (case x of
        NaN \<Rightarrow> ''nan''
      | PosInf \<Rightarrow> ''inf''
      | NegInf \<Rightarrow> ''-inf''
      | NegZero \<Rightarrow> ''-0.0''
      | Finite q \<Rightarrow>
          if q = 0 then ''0.0''
          else let (d, e) = shortest 16 1 \<bar>q\<bar>;
                   ds = digits10 d
               in (if q < 0 then ''-'' else '''') @
                  format_repr (strip_zeros ds) (int (length ds) + e))"

subsection \<open>Arguments, exceptions and the built-in coercions\<close>

text \<open>
  The notebook calls \<open>simulate\<close> with float temperatures (\<open>300.0\<close>) and with an int
  (\<open>400\<close>); \<open>size\<close> defaults to the int \<open>3\<close>.
\<close>

datatype pynum = PInt int | PFloat pyfloat

datatype exn =
    KeyError string
  | OverflowError
  | ValueError
  | OSError string
  | ExternalError string

definition py_float :: "pynum \<Rightarrow> exn + pyfloat" where
  \<comment> \<open>\<open>float(v)\<close>: a float is returned as it is; an int is rounded to the nearest double
      and raises OverflowError when it is too large for one\<close>
  "py_float v =
     (case v of
        PFloat x \<Rightarrow> Inr x
      | PInt n \<Rightarrow>
          (case round_double (n < 0) (of_int \<bar>n\<bar>) of
             PosInf \<Rightarrow> Inl OverflowError
           | NegInf \<Rightarrow> Inl OverflowError
           | x \<Rightarrow> Inr x))"

definition py_int :: "pynum \<Rightarrow> exn + int" where
  \<comment> \<open>\<open>int(v)\<close>: a float is truncated toward zero; an infinity raises OverflowError and
      NaN raises ValueError\<close>
  "py_int v =
     (case v of
        PInt n \<Rightarrow> Inr n
      | PFloat x \<Rightarrow>
          (case x of
             Finite q \<Rightarrow> Inr (if 0 \<le> q then \<lfloor>q\<rfloor> else \<lceil>q\<rceil>)
           | NegZero \<Rightarrow> Inr 0
           | PosInf \<Rightarrow> Inl OverflowError
           | NegInf \<Rightarrow> Inl OverflowError
           | NaN \<Rightarrow> Inl ValueError))"

definition max_str_digits :: int where
  \<comment> \<open>the limit of CPython 3.11 and later on the digits of an int converted to text, at its
      default (the kernel of the notebook is Python 3.12.4, and nothing in it changes the
      limit)\<close>
  "max_str_digits = 4300"

definition int_str :: "int \<Rightarrow> exn + string" where
  \<comment> \<open>\<open>str(n)\<close> for an int, which is how an f-string formats it: ValueError when \<open>n\<close> has
      more than \<open>max_str_digits\<close> decimal digits, the sign not counted\<close>
  "int_str n =
     (let ds = digits10 \<bar>n\<bar>
      in if max_str_digits < int (length ds) then Inl ValueError
         else Inr ((if n < 0 then ''-'' else []) @ ds))"

definition getitem :: "(string \<rightharpoonup> 'v) \<Rightarrow> string \<Rightarrow> exn + 'v" where
  \<comment> \<open>\<open>d[k]\<close> on a dict\<close>
  "getitem d k = (case d k of None \<Rightarrow> Inl (KeyError k) | Some v \<Rightarrow> Inr v)"

definition ebind :: "exn + 'a \<Rightarrow> ('a \<Rightarrow> exn + 'b) \<Rightarrow> exn + 'b" where
  \<comment> \<open>sequencing of two evaluations, the first exception raised wins\<close>
  "ebind m f = (case m of Inl e \<Rightarrow> Inl e | Inr v \<Rightarrow> f v)"

section \<open>The lookup tables\<close>

text \<open>
  \<open>simulate\<close> reads three dicts imported from \<open>data.data\<close>.  \<open>LJ_PARAMS[element]\<close> is
  indexed with \<open>'cutoff'\<close>, \<open>'epsilon'\<close> and \<open>'sigma'\<close>, \<open>CRYSTAL_STRUCTURE[element]\<close> with
  \<open>'symmetry'\<close> and \<open>'lattice_param'\<close>, and \<open>ATOMIC_MASS[element]\<close> is used as a number.
  The contents of the tables are a parameter of the model: an entry is a record with
  exactly these keys, the symmetry a string and the physical quantities floats.
\<close>

record lj_entry =
  cutoff :: pyfloat
  epsilon :: pyfloat
  sigma :: pyfloat

record crystal_entry =
  symmetry :: string
  lattice_param :: pyfloat

record tables =
  LJ_PARAMS :: "string \<rightharpoonup> lj_entry"
  ATOMIC_MASS :: "string \<rightharpoonup> pyfloat"
  CRYSTAL_STRUCTURE :: "string \<rightharpoonup> crystal_entry"

text \<open>
  Modelled from the spec: the module \<open>data/data.py\<close> that defines the three tables is not
  among the sources.  The specification's data model has one element record per chemical
  symbol, with the attributes Lennard-Jones cutoff distance, epsilon, sigma, atomic mass,
  crystal symmetry name and equilibrium lattice parameter, loaded once as a static
  reference table; the three lookup tables hold these attributes under the symbol.
\<close>

record element_record =
  lj_cutoff :: pyfloat
  lj_epsilon :: pyfloat
  lj_sigma :: pyfloat
  atomic_mass :: pyfloat
  crystal_symmetry :: string
  equilibrium_lattice_param :: pyfloat

definition load_tables :: "(string \<rightharpoonup> element_record) \<Rightarrow> tables" where
  "load_tables db =
     \<lparr> LJ_PARAMS = (\<lambda>k. map_option
          (\<lambda>r. \<lparr> cutoff = lj_cutoff r, epsilon = lj_epsilon r, sigma = lj_sigma r \<rparr>) (db k)),
       ATOMIC_MASS = (\<lambda>k. map_option atomic_mass (db k)),
       CRYSTAL_STRUCTURE = (\<lambda>k. map_option
          (\<lambda>r. \<lparr> symmetry = crystal_symmetry r,
                  lattice_param = equilibrium_lattice_param r \<rparr>) (db k)) \<rparr>"

section \<open>The configuration text\<close>

definition nl :: string where
  "nl = [CHR 0x0A]"

definition dq :: string where
  \<comment> \<open>the double quote\<close>
  "dq = [CHR 0x22]"

definition setup_lines ::
  "string \<Rightarrow> string \<Rightarrow> string \<Rightarrow> string \<Rightarrow> string \<Rightarrow> string \<Rightarrow> string \<Rightarrow> string \<Rightarrow> string list" where
  \<comment> \<open>the lines of the f-string between its opening and closing quotes, each with its
      indentation, the formatted fields already converted to text\<close>
  "setup_lines T_field size_field symmetry_field lattice_field
       cutoff_field epsilon_field sigma_field mass_field =
     [''    clear'',
      ''    units metal'',
      ''    dimension 3'',
      ''    boundary p p p'',
      ''    atom_style atomic'',
      ''    variable writefreq equal 100'',
      ''    variable dt equal 0.001'',
      ''    variable T equal '' @ T_field,
      ''    variable size equal '' @ size_field,
      ''    '',
      ''    lattice '' @ symmetry_field @ '' '' @ lattice_field,
      ''    region whole block 0 ${size} 0 ${size} 0 ${size}'',
      ''    create_box 1 whole'',
      ''    lattice '' @ symmetry_field @ '' '' @ lattice_field @
        '' orient x 1 0 0 orient y 0 1 0 orient z 0 0 1'',
      ''    create_atoms 1 region whole'',
      ''    '',
      ''    pair_style lj/cut '' @ cutoff_field,
      ''    pair_coeff * * '' @ epsilon_field @ '' '' @ sigma_field,
      ''    mass 1 '' @ mass_field,
      ''    '',
      ''    timestep ${dt}'',
      ''    velocity all create $T 90909 rot yes mom yes dist gaussian'',
      ''    fix mynvt all nvt temp $T $T $(dt*1000)'',
      ''    '',
      ''    dump mydump all atom ${writefreq} atom.lammpstrj'',
      [],
      ''    compute numatoms all count/type atom'',
      ''    variable ke_kilojoules equal '' @ dq @ ''ke * 1.602e-19 / atoms * 6.022e23'' @ dq,
      ''    thermo_style custom step temp etotal ke pe v_ke_kilojoules'',
      ''    thermo 1000'',
      ''    '',
      ''    write_data initial.data'']"

definition fstring :: "string list \<Rightarrow> string" where
  \<comment> \<open>the triple-quoted text: a newline after the opening quotes, every line ended by a
      newline, and the indentation of the closing quotes\<close>
  "fstring ls = nl @ concat (map (\<lambda>l. l @ nl) ls) @ ''    ''"

definition lattice_parameter :: "tables \<Rightarrow> string \<Rightarrow> bool \<Rightarrow> exn + pyfloat" where
  "lattice_parameter tb element crystallize =
     (if crystallize then
        ebind (getitem (LJ_PARAMS tb) element) (\<lambda>lj.
        Inr (fmul (cutoff lj) (float_lit 8 1)))
      else
        ebind (getitem (CRYSTAL_STRUCTURE tb) element) (\<lambda>cs.
        Inr (lattice_param cs)))"

definition setup_text :: "tables \<Rightarrow> string \<Rightarrow> pynum \<Rightarrow> pynum \<Rightarrow> pyfloat \<Rightarrow> exn + string" where
  \<comment> \<open>the f-string assigned to the variable \<open>setup\<close> (a name Isabelle reserves); each
      field is evaluated and formatted before the next one is evaluated, from left to right,
      so the first evaluation or formatting that raises decides the exception.  Formatting a
      float or a string cannot raise; formatting \<open>int(size)\<close> can\<close>
  "setup_text tb element temperature size_arg lattice_param_value =
     ebind (py_float temperature) (\<lambda>t.
     ebind (py_int size_arg) (\<lambda>n.
     ebind (int_str n) (\<lambda>size_field.
     ebind (getitem (CRYSTAL_STRUCTURE tb) element) (\<lambda>cs.
     ebind (getitem (LJ_PARAMS tb) element) (\<lambda>lj.
     ebind (getitem (ATOMIC_MASS tb) element) (\<lambda>m.
     Inr (fstring (setup_lines
       (float_str (fmul t (Finite 10)))
       size_field
       (symmetry cs)
       (float_str lattice_param_value)
       (float_str (cutoff lj))
       (float_str (epsilon lj))
       (float_str (sigma lj))
       (float_str m)))))))))"

section \<open>The world around \<open>simulate\<close>\<close>

text \<open>
  \<open>sys.stdout\<close> holds a stream object: the console, or a file object created by \<open>open\<close>
  (told apart by a number, as two file objects on the same path are different objects).
  The file system maps a path to the text of the file.  Paths in \<open>denied\<close> cannot be
  opened for writing.
\<close>

datatype stream = Console | FileObj nat string

type_synonym fsys = "string \<rightharpoonup> string"

type_synonym handle = nat

text \<open>
  The calls into LAMMPS, ASE, MDTraj and nglview, in the order of the source.  Objects the
  libraries return (the engine instance, the atoms, the trajectory, the view) are handles.
\<close>

datatype call =
    Lammps
  | CommandsString handle string
  | Command handle string
  | Read string string
  | AtomsWrite handle string string
  | MdLoad string string
  | ShowMdtraj handle
  | ClearRepresentations handle
  | AddSpacefill handle string string pyfloat
  | SetParameters handle "(string \<times> int) list"
  | Center handle

text \<open>
  The libraries are a parameter: a call sees the file system and the libraries' own state
  \<open>'x\<close>, changes both, and returns a handle or raises (\<open>Inl\<close> with the message).
\<close>

type_synonym 'x ext = "call \<Rightarrow> fsys \<times> 'x \<Rightarrow> (string + handle) \<times> fsys \<times> 'x"

text \<open>
  \<open>trace\<close> is a log kept by the model only: every library call, with the value of
  \<open>sys.stdout\<close> when it was made and with its outcome.
\<close>

record 'x world =
  stdout :: stream
  files :: fsys
  denied :: "string list"
  next_obj :: nat
  xstate :: 'x
  trace :: "(stream \<times> call \<times> (string + handle)) list"

type_synonym ('x, 'a) action = "'x world \<Rightarrow> (exn + 'a) \<times> 'x world"

definition sreturn :: "'a \<Rightarrow> ('x, 'a) action" where
  "sreturn v w = (Inr v, w)"

definition sbind :: "('x, 'a) action \<Rightarrow> ('a \<Rightarrow> ('x, 'b) action) \<Rightarrow> ('x, 'b) action" where
  \<comment> \<open>statement sequencing: an exception leaves the function with the world as it is\<close>
  "sbind m f w = (case m w of (Inl e, w') \<Rightarrow> (Inl e, w') | (Inr v, w') \<Rightarrow> f v w')"

definition lift :: "exn + 'a \<Rightarrow> ('x, 'a) action" where
  \<comment> \<open>an evaluation that does not touch the world\<close>
  "lift r w = (r, w)"

definition get_stdout :: "('x, stream) action" where
  "get_stdout w = (Inr (stdout w), w)"

definition set_stdout :: "stream \<Rightarrow> ('x, unit) action" where
  "set_stdout s w = (Inr (), w\<lparr>stdout := s\<rparr>)"

definition open_w :: "string \<Rightarrow> ('x, stream) action" where
  \<comment> \<open>\<open>open(path, 'w')\<close>: creates the file or truncates it, and returns a new file object\<close>
  "open_w path w =
     (if path \<in> set (denied w) then (Inl (OSError path), w)
      else (Inr (FileObj (next_obj w) path),
            w\<lparr>files := (files w)(path \<mapsto> []), next_obj := Suc (next_obj w)\<rparr>))"

definition ext_call :: "'x ext \<Rightarrow> call \<Rightarrow> ('x, handle) action" where
  "ext_call X c w =
     (case X c (files w, xstate w) of
        (r, fs, x) \<Rightarrow>
          (case r of Inl msg \<Rightarrow> Inl (ExternalError msg) | Inr h \<Rightarrow> Inr h,
           w\<lparr>files := fs, xstate := x, trace := trace w @ [(stdout w, c, r)]\<rparr>))"

section \<open>\<open>simulate\<close>\<close>

definition simulate ::
  "tables \<Rightarrow> 'x ext \<Rightarrow> string \<Rightarrow> pynum \<Rightarrow> pynum \<Rightarrow> bool \<Rightarrow> ('x, handle) action" where
  "simulate tb X element temperature size_arg crystallize =
     sbind (lift (lattice_parameter tb element crystallize)) (\<lambda>lattice_param_value.
     sbind get_stdout (\<lambda>old_stdout.
     sbind (open_w ''stdout.txt'') (\<lambda>f.
     sbind (set_stdout f) (\<lambda>_.
     sbind (ext_call X Lammps) (\<lambda>l.
     sbind (lift (setup_text tb element temperature size_arg lattice_param_value)) (\<lambda>txt.
     sbind (ext_call X (CommandsString l txt)) (\<lambda>_.
     sbind (ext_call X (Command l ''run 10000'')) (\<lambda>_.
     sbind (ext_call X (Read ''initial.data'' ''lammps-data'')) (\<lambda>atoms.
     sbind (ext_call X (AtomsWrite atoms ''initial.gro'' ''gromacs'')) (\<lambda>_.
     sbind (ext_call X (MdLoad ''atom.lammpstrj'' ''initial.gro'')) (\<lambda>traj.
     sbind (ext_call X (ShowMdtraj traj)) (\<lambda>view.
     sbind (ext_call X (ClearRepresentations view)) (\<lambda>_.
     sbind (ext_call X (AddSpacefill view ''all'' ''cyan'' (float_lit 5 2))) (\<lambda>_.
     sbind (ext_call X (SetParameters view
              [(''clipNear'', 0), (''clipFar'', 100), (''clipDist'', 1)])) (\<lambda>_.
     sbind (ext_call X (Center view)) (\<lambda>_.
     sbind (set_stdout old_stdout) (\<lambda>_.
     sreturn view)))))))))))))))))"

definition simulate_default :: "tables \<Rightarrow> 'x ext \<Rightarrow> string \<Rightarrow> pynum \<Rightarrow> ('x, handle) action" where
  \<comment> \<open>the call with the defaults \<open>size=3\<close>, \<open>crystallize=False\<close>\<close>
  "simulate_default tb X element temperature = simulate tb X element temperature (PInt 3) False"

section \<open>What a call logs\<close>

definition new_trace ::
  "'x world \<Rightarrow> 'x world \<Rightarrow> (stream \<times> call \<times> (string + handle)) list" where
  \<comment> \<open>the library calls made between the worlds \<open>w\<close> and \<open>w'\<close>\<close>
  "new_trace w w' = drop (length (trace w)) (trace w')"

definition submitted :: "(stream \<times> call \<times> (string + handle)) list \<Rightarrow> string list" where
  \<comment> \<open>the configuration texts handed to \<open>commands_string\<close>\<close>
  "submitted tr = [txt. (out, CommandsString l txt, res) \<leftarrow> tr]"

definition accepted :: "(stream \<times> call \<times> (string + handle)) list \<Rightarrow> string list" where
  \<comment> \<open>the configuration texts for which \<open>commands_string\<close> returned without raising\<close>
  "accepted tr = [txt. (out, CommandsString l txt, Inr h) \<leftarrow> tr]"

definition run_commands :: "(stream \<times> call \<times> (string + handle)) list \<Rightarrow> string list" where
  \<comment> \<open>the commands handed to \<open>command\<close>\<close>
  "run_commands tr = [cmd. (out, Command l cmd, res) \<leftarrow> tr]"

text \<open>
  Two stretches of the body of \<open>simulate\<close>, named for the proofs: the calls to the engine
  and the calls that read the files back and build the view.  \<open>redirected w\<close> is the world
  after \<open>sys.stdout = open('stdout.txt', 'w')\<close>.
\<close>

definition engine_part ::
  "tables \<Rightarrow> 'x ext \<Rightarrow> string \<Rightarrow> pynum \<Rightarrow> pynum \<Rightarrow> pyfloat \<Rightarrow> ('x, handle) action" where
  "engine_part tb X element temperature size_arg lattice_param_value =
     sbind (ext_call X Lammps) (\<lambda>l.
     sbind (lift (setup_text tb element temperature size_arg lattice_param_value)) (\<lambda>txt.
     sbind (ext_call X (CommandsString l txt)) (\<lambda>_.
     ext_call X (Command l ''run 10000''))))"

definition visualize :: "'x ext \<Rightarrow> ('x, handle) action" where
  "visualize X =
     sbind (ext_call X (Read ''initial.data'' ''lammps-data'')) (\<lambda>atoms.
     sbind (ext_call X (AtomsWrite atoms ''initial.gro'' ''gromacs'')) (\<lambda>_.
     sbind (ext_call X (MdLoad ''atom.lammpstrj'' ''initial.gro'')) (\<lambda>traj.
     sbind (ext_call X (ShowMdtraj traj)) (\<lambda>view.
     sbind (ext_call X (ClearRepresentations view)) (\<lambda>_.
     sbind (ext_call X (AddSpacefill view ''all'' ''cyan'' (float_lit 5 2))) (\<lambda>_.
     sbind (ext_call X (SetParameters view
              [(''clipNear'', 0), (''clipFar'', 100), (''clipDist'', 1)])) (\<lambda>_.
     sbind (ext_call X (Center view)) (\<lambda>_.
     sreturn view))))))))"

definition redirected :: "'x world \<Rightarrow> 'x world" where
  "redirected w =
     w\<lparr>files := (files w)(''stdout.txt'' \<mapsto> []), next_obj := Suc (next_obj w),
       stdout := FileObj (next_obj w) ''stdout.txt''\<rparr>"

fun engine_call :: "call \<Rightarrow> bool" where
  "engine_call (CommandsString l txt) = True"
| "engine_call (Command l cmd) = True"
| "engine_call c = False"

definition emits :: "(call \<Rightarrow> bool) \<Rightarrow> ('x, 'a) action \<Rightarrow> bool" where
  \<comment> \<open>the action leaves \<open>sys.stdout\<close> alone and makes only library calls that satisfy \<open>P\<close>\<close>
  "emits P m =
     (\<forall>w r w'. m w = (r, w') \<longrightarrow>
        stdout w' = stdout w \<and>
        (\<exists>new. trace w' = trace w @ new \<and> (\<forall>(out, c, res) \<in> set new. out = stdout w \<and> P c)))"


definition contains_line :: "string \<Rightarrow> string \<Rightarrow> bool" where
  \<comment> \<open>\<open>l\<close> is a whole line of the text \<open>txt\<close>\<close>
  "contains_line txt l = sublist (nl @ l @ nl) txt"

definition external_only :: "('x, 'a) action \<Rightarrow> bool" where
  \<comment> \<open>the only exceptions the action raises are those of the libraries\<close>
  "external_only m = (\<forall>w k w'. m w = (Inl k, w') \<longrightarrow> (\<exists>msg. k = ExternalError msg))"

fun file_args :: "call \<Rightarrow> string list" where
  \<comment> \<open>the paths a library call is given\<close>
  "file_args (Read path fmt) = [path]"
| "file_args (AtomsWrite atoms path fmt) = [path]"
| "file_args (MdLoad path topology) = [path, topology]"
| "file_args c = []"

definition fixed_names :: "call \<Rightarrow> bool" where
  "fixed_names c =
     (set (file_args c) \<subseteq> {''initial.data'', ''initial.gro'', ''atom.lammpstrj''})"

subsection \<open>Libraries that overwrite their files\<close>

text \<open>
  What the libraries are taken to read and to write at a call.  \<open>read\<close> and \<open>md.load\<close>
  read the files they are given.  \<open>effect c (W, D)\<close> follows the files \<open>W\<close> that have been
  written and the dump files \<open>D\<close> that the engine has been told to write: the engine
  writes \<open>initial.data\<close> when it executes the line \<open>write_data initial.data\<close> of a
  configuration, it notes the dump file of the line \<open>dump ... atom.lammpstrj\<close>, and it
  writes the dump files it has noted when it is told to run; \<open>atoms.write\<close> writes the file
  it is given.
\<close>

fun reads :: "call \<Rightarrow> string set" where
  "reads (Read path fmt) = {path}"
| "reads (MdLoad path topology) = {path, topology}"
| "reads c = {}"

fun effect :: "call \<Rightarrow> string set \<times> string set \<Rightarrow> string set \<times> string set" where
  "effect (CommandsString l txt) (W, D) =
     (if contains_line txt ''    write_data initial.data'' then insert ''initial.data'' W else W,
      if contains_line txt ''    dump mydump all atom ${writefreq} atom.lammpstrj''
      then insert ''atom.lammpstrj'' D else D)"
| "effect (Command l cmd) (W, D) = (if take 4 cmd = ''run '' then W \<union> D else W, D)"
| "effect (AtomsWrite atoms path fmt) (W, D) = (insert path W, D)"
| "effect c (W, D) = (W, D)"

text \<open>
  \<open>overwriting X\<close> says that the libraries \<open>X\<close> replace the files they write and keep
  nothing from before a new engine instance.  \<open>R (W, D) s1 s2\<close> reads: the two states of
  the libraries and of the file system cannot be told apart by a call that reads only
  files of \<open>W\<close>, and in both the engine is to dump to the files of \<open>D\<close>.  Such states hold
  the same files of \<open>W\<close>.  Creating the engine in two states whose \<open>stdout.txt\<close> is the
  same gives the same result, and states alike on \<open>stdout.txt\<close>.  Any later call that reads
  only files of \<open>W\<close> gives, in states alike on \<open>W\<close>, the same result, and states alike on
  the files that \<open>effect\<close> adds: what it writes to them depends on nothing that differs
  between the two states, so it replaces what they held.
\<close>

definition overwriting :: "'x ext \<Rightarrow> bool" where
  "overwriting X =
     (\<exists>R :: string set \<times> string set \<Rightarrow> fsys \<times> 'x \<Rightarrow> fsys \<times> 'x \<Rightarrow> bool.
        (\<forall>k s1 s2. R k s1 s2 \<longrightarrow> (\<forall>p \<in> fst k. fst s1 p = fst s2 p)) \<and>
        (\<forall>s1 s2. fst s1 ''stdout.txt'' = fst s2 ''stdout.txt'' \<longrightarrow>
           fst (X Lammps s1) = fst (X Lammps s2) \<and>
           R ({''stdout.txt''}, {}) (snd (X Lammps s1)) (snd (X Lammps s2))) \<and>
        (\<forall>k c s1 s2. c \<noteq> Lammps \<and> R k s1 s2 \<and> reads c \<subseteq> fst k \<longrightarrow>
           fst (X c s1) = fst (X c s2) \<and>
           R (effect c k) (snd (X c s1)) (snd (X c s2))))"

definition lib_state :: "'x world \<Rightarrow> fsys \<times> 'x" where
  \<comment> \<open>the part of the world that the libraries see\<close>
  "lib_state w = (files w, xstate w)"

definition alike ::
  "(fsys \<times> 'x \<Rightarrow> fsys \<times> 'x \<Rightarrow> bool) \<Rightarrow> ('x, 'a) action \<Rightarrow> (fsys \<times> 'x \<Rightarrow> fsys \<times> 'x \<Rightarrow> bool) \<Rightarrow> bool"
  where
  \<comment> \<open>two returning runs of the action from worlds related by \<open>P\<close> return the same value
      and end in worlds related by \<open>Q\<close>\<close>
  "alike P m Q =
     (\<forall>w1 w2 v1 v2 w1' w2'.
        P (lib_state w1) (lib_state w2) \<and> m w1 = (Inr v1, w1') \<and> m w2 = (Inr v2, w2') \<longrightarrow>
        v1 = v2 \<and> Q (lib_state w1') (lib_state w2'))"

subsection \<open>Sample inputs\<close>

text \<open>
  The entries of the tables are not part of the sources; the gold entry below is an
  illustration with which the theorems are run.  \<open>obliging\<close> stands for libraries whose
  every call returns, \<open>lost_atoms\<close> for an engine whose run raises, and \<open>recording\<close> for
  libraries that write what they are given: the configuration to \<open>initial.data\<close>, the run
  command to \<open>atom.lammpstrj\<close> and the format to the file of \<open>atoms.write\<close>, and that
  cannot read a file that does not exist.
\<close>

definition sample_db :: "string \<rightharpoonup> element_record" where
  "sample_db =
     [''Au'' \<mapsto>
        \<lparr> lj_cutoff = float_lit 10 0,
          lj_epsilon = float_lit 2294 4,
          lj_sigma = float_lit 2646 3,
          atomic_mass = float_lit 19697 2,
          crystal_symmetry = ''fcc'',
          equilibrium_lattice_param = float_lit 4078 3 \<rparr>]"

definition console_world :: "unit world" where
  "console_world =
     \<lparr> stdout = Console, files = Map.empty, denied = [], next_obj = 0, xstate = (),
       trace = [] \<rparr>"

definition obliging :: "unit ext" where
  "obliging c s = (Inr 0, s)"

definition lost_atoms :: "unit ext" where
  "lost_atoms c s =
     (case c of
        Command l cmd \<Rightarrow> (Inl ''ERROR: Lost atoms'', s)
      | _ \<Rightarrow> (Inr 0, s))"

definition recording :: "unit ext" where
  "recording c s =
     (case c of
        CommandsString l txt \<Rightarrow> (Inr 0, (fst s)(''initial.data'' \<mapsto> txt), snd s)
      | Command l cmd \<Rightarrow> (Inr 0, (fst s)(''atom.lammpstrj'' \<mapsto> cmd), snd s)
      | Read path fmt \<Rightarrow>
          (if fst s path = None then Inl ''No such file'' else Inr 0, s)
      | AtomsWrite atoms path fmt \<Rightarrow> (Inr 0, (fst s)(path \<mapsto> fmt), snd s)
      | MdLoad path topology \<Rightarrow>
          (if fst s path = None \<or> fst s topology = None then Inl ''No such file'' else Inr 0, s)
      | _ \<Rightarrow> (Inr 0, s))"

definition sample_text :: "int \<Rightarrow> pyfloat \<Rightarrow> string" where
  \<comment> \<open>the configuration for gold at 300.0 K with the sample table, for a size \<open>n\<close> from
      0 to 9 and the lattice parameter \<open>lp\<close>\<close>
  "sample_text n lp =
     fstring (setup_lines (float_str (fmul (Finite 300) (Finite 10))) [digit n] ''fcc''
       (float_str lp) (float_str (float_lit 10 0)) (float_str (float_lit 2294 4))
       (float_str (float_lit 2646 3)) (float_str (float_lit 19697 2)))"

definition sample_lattice :: "bool \<Rightarrow> pyfloat" where
  "sample_lattice crystallize =
     (if crystallize then fmul (float_lit 10 0) (float_lit 8 1) else float_lit 4078 3)"

definition notebook_world :: "unit world" where
  \<comment> \<open>the world the notebook makes before it calls \<open>simulate\<close>: the first cell has already
      set \<open>sys.stdout\<close> to a file object on \<open>stdout.txt\<close>\<close>
  "notebook_world =
     \<lparr> stdout = FileObj 0 ''stdout.txt'', files = [''stdout.txt'' \<mapsto> ''Requirement already satisfied''],
       denied = [], next_obj = 1, xstate = (), trace = [] \<rparr>"

definition beyond_double :: int where
  \<comment> \<open>an int that no double can hold\<close>
  "beyond_double = 2 ^ 1024"

definition after_first_call :: "int \<Rightarrow> unit world" where
  \<comment> \<open>the world left by a first call for gold with the size \<open>n\<close>, made on the console\<close>
  "after_first_call n =
     snd (simulate (load_tables sample_db) recording ''Au'' (PFloat (Finite 300)) (PInt n) False
       console_world)"

section \<open>Lemmas on the sequencing and the log\<close>

lemma sbind_assoc: "sbind (sbind m f) g = sbind m (\<lambda>v. sbind (f v) g)"
  by (rule ext) (simp add: sbind_def split: prod.splits sum.splits)

lemma sbind_sreturn: "sbind (sreturn v) f = f v"
  by (rule ext) (simp add: sbind_def sreturn_def)

lemma simulate_phases:
  "simulate tb X e t s c =
     sbind (lift (lattice_parameter tb e c)) (\<lambda>lp.
     sbind get_stdout (\<lambda>old_stdout.
     sbind (open_w ''stdout.txt'') (\<lambda>f.
     sbind (set_stdout f) (\<lambda>_.
     sbind (engine_part tb X e t s lp) (\<lambda>_.
     sbind (visualize X) (\<lambda>view.
     sbind (set_stdout old_stdout) (\<lambda>_.
     sreturn view)))))))"
  by (simp add: simulate_def engine_part_def visualize_def sbind_assoc sbind_sreturn)

lemma simulate_cases:
  assumes "simulate tb X e t s c w = (r, w')"
  obtains
    (lookup) k where "lattice_parameter tb e c = Inl k" "r = Inl k" "w' = w"
  | (denied) lp where "lattice_parameter tb e c = Inr lp" "''stdout.txt'' \<in> set (denied w)"
      "r = Inl (OSError ''stdout.txt'')" "w' = w"
  | (engine) lp k where "lattice_parameter tb e c = Inr lp" "''stdout.txt'' \<notin> set (denied w)"
      "engine_part tb X e t s lp (redirected w) = (Inl k, w')" "r = Inl k"
  | (display) lp h we k where "lattice_parameter tb e c = Inr lp" "''stdout.txt'' \<notin> set (denied w)"
      "engine_part tb X e t s lp (redirected w) = (Inr h, we)"
      "visualize X we = (Inl k, w')" "r = Inl k"
  | (returned) lp h we view wv where "lattice_parameter tb e c = Inr lp"
      "''stdout.txt'' \<notin> set (denied w)"
      "engine_part tb X e t s lp (redirected w) = (Inr h, we)"
      "visualize X we = (Inr view, wv)" "r = Inr view" "w' = wv\<lparr>stdout := stdout w\<rparr>"
  using assms unfolding simulate_phases
  by (auto simp: sbind_def lift_def get_stdout_def set_stdout_def open_w_def sreturn_def redirected_def
      split: sum.splits prod.splits if_splits)


lemma submitted_append: "submitted (xs @ ys) = submitted xs @ submitted ys"
  by (simp add: submitted_def)

lemma accepted_append: "accepted (xs @ ys) = accepted xs @ accepted ys"
  by (simp add: accepted_def)

lemma run_commands_append: "run_commands (xs @ ys) = run_commands xs @ run_commands ys"
  by (simp add: run_commands_def)

lemma no_engine_calls:
  assumes "\<forall>(out, c, res) \<in> set new. P out \<and> \<not> engine_call c"
  shows "submitted new = []" and "accepted new = []" and "run_commands new = []"
proof -
  have "submitted new = [] \<and> accepted new = [] \<and> run_commands new = []"
    using assms
  proof (induction new)
    case Nil
    show ?case by (simp add: submitted_def accepted_def run_commands_def)
  next
    case (Cons a new)
    obtain out c res where a: "a = (out, c, res)"
      by (cases a)
    from Cons.prems a have "\<not> engine_call c"
      by simp
    then have "submitted [a] = [] \<and> accepted [a] = [] \<and> run_commands [a] = []"
      using a by (cases c) (simp_all add: submitted_def accepted_def run_commands_def)
    moreover from Cons have "submitted new = [] \<and> accepted new = [] \<and> run_commands new = []"
      by simp
    ultimately show ?case
      using submitted_append [of "[a]" new] accepted_append [of "[a]" new]
        run_commands_append [of "[a]" new]
      by simp
  qed
  then show "submitted new = []" and "accepted new = []" and "run_commands new = []"
    by simp_all
qed

lemma emitsD:
  assumes "emits P m" and "m w = (r, w')"
  obtains new where "stdout w' = stdout w" "trace w' = trace w @ new"
    "\<forall>(out, c, res) \<in> set new. out = stdout w \<and> P c"
proof -
  from assms have "stdout w' = stdout w \<and>
      (\<exists>new. trace w' = trace w @ new \<and> (\<forall>(out, c, res) \<in> set new. out = stdout w \<and> P c))"
    unfolding emits_def by (elim allE impE) assumption+
  then show ?thesis
    using that by (elim conjE exE)
qed

lemma emits_ext_call: "P c \<Longrightarrow> emits P (ext_call X c)"
  by (auto simp: emits_def ext_call_def split: prod.splits)

lemma emits_sreturn: "emits P (sreturn v)"
  by (simp add: emits_def sreturn_def)

lemma emits_sbind:
  assumes m: "emits P m" and f: "\<And>v. emits P (f v)"
  shows "emits P (sbind m f)"
  unfolding emits_def
proof (intro allI impI)
  fix w r w'
  assume run: "sbind m f w = (r, w')"
  obtain r1 w1 where mw: "m w = (r1, w1)"
    by (cases "m w")
  from emitsD [OF m mw] obtain new1 where
    s1: "stdout w1 = stdout w" and t1: "trace w1 = trace w @ new1"
    and p1: "\<forall>(out, c, res) \<in> set new1. out = stdout w \<and> P c"
    by blast
  show "stdout w' = stdout w \<and>
        (\<exists>new. trace w' = trace w @ new \<and> (\<forall>(out, c, res) \<in> set new. out = stdout w \<and> P c))"
  proof (cases r1)
    case (Inl k)
    with mw run have "w' = w1"
      by (simp add: sbind_def)
    with s1 t1 p1 show ?thesis
      by (intro conjI exI [of _ new1]) simp_all
  next
    case (Inr v)
    with mw run have fw: "f v w1 = (r, w')"
      by (simp add: sbind_def)
    from emitsD [OF f fw] obtain new2 where
      s2: "stdout w' = stdout w1" and t2: "trace w' = trace w1 @ new2"
      and p2: "\<forall>(out, c, res) \<in> set new2. out = stdout w1 \<and> P c"
      by blast
    have "trace w' = trace w @ (new1 @ new2)"
      using t1 t2 by simp
    moreover have "\<forall>(out, c, res) \<in> set (new1 @ new2). out = stdout w \<and> P c"
      using p1 p2 s1 by auto
    ultimately show ?thesis
      using s1 s2 by (intro conjI exI [of _ "new1 @ new2"]) simp_all
  qed
qed

lemma visualize_emits: "emits (\<lambda>c. \<not> engine_call c) (visualize X)"
  unfolding visualize_def
  by (intro emits_sbind emits_ext_call emits_sreturn) simp_all

lemma visualize_log:
  assumes "visualize X w = (r, w')"
  obtains new where "trace w' = trace w @ new" "stdout w' = stdout w"
    "\<forall>(out, c, res) \<in> set new. out = stdout w \<and> \<not> engine_call c"
  by (rule emitsD [OF visualize_emits assms]) (rule that)

lemma engine_part_log:
  assumes "engine_part tb X e t s lp w = (r, w')"
  obtains new where "trace w' = trace w @ new" "stdout w' = stdout w"
    "\<forall>(out, c, res) \<in> set new. out = stdout w"
    "\<forall>txt \<in> set (submitted new). setup_text tb e t s lp = Inr txt"
    "length (submitted new) \<le> 1"
    "run_commands new = (if accepted new = [] then [] else [''run 10000''])"
    "\<forall>v. r = Inr v \<longrightarrow> accepted new \<noteq> []"
  using assms unfolding engine_part_def
  by (auto simp: sbind_def lift_def ext_call_def submitted_def accepted_def run_commands_def
      split: sum.splits prod.splits if_splits)


lemma simulate_log:
  assumes "simulate tb X e t s c w = (r, w')"
  obtains new where "trace w' = trace w @ new"
    "\<forall>(out, cl, res) \<in> set new. out = FileObj (next_obj w) ''stdout.txt''"
    "\<forall>txt \<in> set (submitted new).
       \<exists>lp. lattice_parameter tb e c = Inr lp \<and> setup_text tb e t s lp = Inr txt"
    "length (submitted new) \<le> 1"
    "run_commands new = (if accepted new = [] then [] else [''run 10000''])"
    "\<forall>v. r = Inr v \<longrightarrow> accepted new \<noteq> [] \<and> stdout w' = stdout w"
  using assms
proof (cases rule: simulate_cases)
  case (lookup k)
  show ?thesis
    by (rule that [of "[]"]) (simp_all add: lookup submitted_def accepted_def run_commands_def)
next
  case (denied lp)
  show ?thesis
    by (rule that [of "[]"]) (simp_all add: denied submitted_def accepted_def run_commands_def)
next
  case (engine lp k)
  from engine(3) obtain new where n:
    "trace w' = trace (redirected w) @ new" "stdout w' = stdout (redirected w)"
    "\<forall>(out, c, res) \<in> set new. out = stdout (redirected w)"
    "\<forall>txt \<in> set (submitted new). setup_text tb e t s lp = Inr txt"
    "length (submitted new) \<le> 1"
    "run_commands new = (if accepted new = [] then [] else [''run 10000''])"
    "\<forall>v::handle. (Inl k :: exn + handle) = Inr v \<longrightarrow> accepted new \<noteq> []"
    by (rule engine_part_log) (rule that)
  show ?thesis
    using n engine(1,4) by (intro that [of new]) (simp_all add: redirected_def)
next
  case (display lp h we k)
  from display(3) obtain new where n:
    "trace we = trace (redirected w) @ new" "stdout we = stdout (redirected w)"
    "\<forall>(out, c, res) \<in> set new. out = stdout (redirected w)"
    "\<forall>txt \<in> set (submitted new). setup_text tb e t s lp = Inr txt"
    "length (submitted new) \<le> 1"
    "run_commands new = (if accepted new = [] then [] else [''run 10000''])"
    "\<forall>v::handle. (Inr h :: exn + handle) = Inr v \<longrightarrow> accepted new \<noteq> []"
    by (rule engine_part_log) (rule that)
  from display(4) obtain new2 where v:
    "trace w' = trace we @ new2" "stdout w' = stdout we"
    "\<forall>(out, c, res) \<in> set new2. out = stdout we \<and> \<not> engine_call c"
    by (rule visualize_log) (rule that)
  note z = no_engine_calls [OF v(3)]
  show ?thesis
    using n v(1,2) display(1,5)
    by (intro that [of "new @ new2"])
      (use v(3) in \<open>auto simp: redirected_def submitted_append accepted_append run_commands_append z\<close>)
next
  case (returned lp h we view wv)
  from returned(3) obtain new where n:
    "trace we = trace (redirected w) @ new" "stdout we = stdout (redirected w)"
    "\<forall>(out, c, res) \<in> set new. out = stdout (redirected w)"
    "\<forall>txt \<in> set (submitted new). setup_text tb e t s lp = Inr txt"
    "length (submitted new) \<le> 1"
    "run_commands new = (if accepted new = [] then [] else [''run 10000''])"
    "\<forall>v::handle. (Inr h :: exn + handle) = Inr v \<longrightarrow> accepted new \<noteq> []"
    by (rule engine_part_log) (rule that)
  from returned(4) obtain new2 where v:
    "trace wv = trace we @ new2" "stdout wv = stdout we"
    "\<forall>(out, c, res) \<in> set new2. out = stdout we \<and> \<not> engine_call c"
    by (rule visualize_log) (rule that)
  note z = no_engine_calls [OF v(3)]
  show ?thesis
    using n v(1,2) returned(1,5,6)
    by (intro that [of "new @ new2"])
      (use v(3) in \<open>auto simp: redirected_def submitted_append accepted_append run_commands_append z\<close>)
qed

lemma fstring_split:
  "fstring (a @ l # b) =
     concat (map (\<lambda>l. nl @ l) a) @ (nl @ l @ nl) @ concat (map (\<lambda>l. l @ nl) b) @ ''    ''"
  by (induction a) (simp_all add: fstring_def)

lemma fstring_line: "l \<in> set ls \<Longrightarrow> contains_line (fstring ls) l"
proof -
  assume "l \<in> set ls"
  then obtain a b where "ls = a @ l # b"
    by (auto dest: split_list)
  then have "fstring ls =
      concat (map (\<lambda>l. nl @ l) a) @ (nl @ l @ nl) @ concat (map (\<lambda>l. l @ nl) b) @ ''    ''"
    by (simp only: fstring_split)
  then show ?thesis
    unfolding contains_line_def by (simp only: sublist_appendI)
qed


lemma accepted_submitted: "set (accepted tr) \<subseteq> set (submitted tr)"
proof (induction tr)
  case Nil
  show ?case by (simp add: accepted_def)
next
  case (Cons a tr)
  obtain out c res where a: "a = (out, c, res)"
    by (cases a)
  have "set (accepted [a]) \<subseteq> set (submitted [a])"
    unfolding a by (cases c; cases res) (simp_all add: accepted_def submitted_def)
  with Cons show ?case
    using accepted_append [of "[a]" tr] submitted_append [of "[a]" tr] by auto
qed

lemma new_trace_append: "trace w' = trace w @ new \<Longrightarrow> new_trace w w' = new"
  by (simp add: new_trace_def)

lemma setup_text_fields:
  assumes "setup_text tb e t s lp = Inr txt"
  obtains x n sz cs lj m where "py_float t = Inr x" "py_int s = Inr n" "int_str n = Inr sz"
    "CRYSTAL_STRUCTURE tb e = Some cs" "LJ_PARAMS tb e = Some lj" "ATOMIC_MASS tb e = Some m"
    "txt = fstring (setup_lines (float_str (fmul x (Finite 10))) sz (symmetry cs)
       (float_str lp) (float_str (cutoff lj)) (float_str (epsilon lj)) (float_str (sigma lj))
       (float_str m))"
  using assms
  by (auto simp: setup_text_def ebind_def getitem_def split: sum.splits option.splits)

lemma setup_text_valid:
  assumes "py_float t = Inr x" "py_int s = Inr n" "int_str n = Inr sz"
    "CRYSTAL_STRUCTURE tb e = Some cs" "LJ_PARAMS tb e = Some lj" "ATOMIC_MASS tb e = Some m"
  shows "setup_text tb e t s lp =
    Inr (fstring (setup_lines (float_str (fmul x (Finite 10))) sz (symmetry cs)
       (float_str lp) (float_str (cutoff lj)) (float_str (epsilon lj)) (float_str (sigma lj))
       (float_str m)))"
  using assms by (simp add: setup_text_def ebind_def getitem_def)

lemma setup_text_unprintable:
  assumes "py_float t = Inr x" "py_int s = Inr n" "int_str n = Inl k"
  shows "setup_text tb e t s lp = Inl k"
  using assms by (simp add: setup_text_def ebind_def)

lemma int_str_error: "int_str n = Inl k \<Longrightarrow> k = ValueError"
  by (auto simp: int_str_def Let_def split: if_splits)

lemma int_str_digit:
  assumes "0 \<le> n" and "n < 10"
  shows "int_str n = Inr [digit n]"
  using assms by (simp add: int_str_def digits10.simps max_str_digits_def)

lemma setup_lines_contain:
  fixes a b c d e f g h :: string
  defines "txt \<equiv> fstring (setup_lines a b c d e f g h)"
  shows "contains_line txt (''    variable T equal '' @ a)"
    and "contains_line txt (''    variable size equal '' @ b)"
    and "contains_line txt (''    lattice '' @ c @ '' '' @ d)"
    and "contains_line txt
       (''    lattice '' @ c @ '' '' @ d @ '' orient x 1 0 0 orient y 0 1 0 orient z 0 0 1'')"
    and "contains_line txt (''    pair_style lj/cut '' @ e)"
    and "contains_line txt (''    pair_coeff * * '' @ f @ '' '' @ g)"
    and "contains_line txt (''    mass 1 '' @ h)"
    and "contains_line txt ''    velocity all create $T 90909 rot yes mom yes dist gaussian''"
    and "contains_line txt ''    fix mynvt all nvt temp $T $T $(dt*1000)''"
    and "contains_line txt ''    dump mydump all atom ${writefreq} atom.lammpstrj''"
    and "contains_line txt ''    write_data initial.data''"
  unfolding txt_def by (rule fstring_line, simp add: setup_lines_def)+

subsection \<open>The sample runs\<close>

lemmas action_defs =
  sbind_def lift_def get_stdout_def set_stdout_def open_w_def ext_call_def sreturn_def

lemma sample_entries:
  "LJ_PARAMS (load_tables sample_db) ''Au'' =
     Some \<lparr> cutoff = float_lit 10 0, epsilon = float_lit 2294 4,
            sigma = float_lit 2646 3 \<rparr>"
  "ATOMIC_MASS (load_tables sample_db) ''Au'' = Some (float_lit 19697 2)"
  "CRYSTAL_STRUCTURE (load_tables sample_db) ''Au'' =
     Some \<lparr> symmetry = ''fcc'', lattice_param = float_lit 4078 3 \<rparr>"
  by (simp_all add: load_tables_def sample_db_def)

lemma sample_lattice_parameter:
  "lattice_parameter (load_tables sample_db) ''Au'' c = Inr (sample_lattice c)"
  by (simp add: lattice_parameter_def ebind_def getitem_def sample_entries sample_lattice_def)

lemma sample_setup_text:
  assumes "0 \<le> n" and "n < 10"
  shows "setup_text (load_tables sample_db) ''Au'' (PFloat (Finite 300)) (PInt n) lp =
    Inr (sample_text n lp)"
  unfolding sample_text_def
  by (simp add: setup_text_def ebind_def getitem_def sample_entries py_float_def py_int_def
      int_str_digit [OF assms])

lemma sample_run_obliging:
  assumes "''stdout.txt'' \<notin> set (denied w)" and "0 \<le> n" and "n < 10"
  shows "simulate (load_tables sample_db) obliging ''Au'' (PFloat (Finite 300)) (PInt n) c w =
     (Inr 0,
      w\<lparr>files := (files w)(''stdout.txt'' \<mapsto> []), next_obj := Suc (next_obj w),
        trace := trace w @ map (\<lambda>cl. (FileObj (next_obj w) ''stdout.txt'', cl, Inr 0))
          [Lammps, CommandsString 0 (sample_text n (sample_lattice c)), Command 0 ''run 10000'',
           Read ''initial.data'' ''lammps-data'', AtomsWrite 0 ''initial.gro'' ''gromacs'',
           MdLoad ''atom.lammpstrj'' ''initial.gro'', ShowMdtraj 0, ClearRepresentations 0,
           AddSpacefill 0 ''all'' ''cyan'' (float_lit 5 2),
           SetParameters 0 [(''clipNear'', 0), (''clipFar'', 100), (''clipDist'', 1)],
           Center 0]\<rparr>)"
  unfolding simulate_def
  using assms by (simp add: action_defs sample_lattice_parameter sample_setup_text obliging_def)

lemma sample_run_lost_atoms:
  assumes "''stdout.txt'' \<notin> set (denied w)" and "0 \<le> n" and "n < 10"
  shows "simulate (load_tables sample_db) lost_atoms ''Au'' (PFloat (Finite 300)) (PInt n) c w =
     (Inl (ExternalError ''ERROR: Lost atoms''),
      w\<lparr>stdout := FileObj (next_obj w) ''stdout.txt'',
        files := (files w)(''stdout.txt'' \<mapsto> []), next_obj := Suc (next_obj w),
        trace := trace w @
         [(FileObj (next_obj w) ''stdout.txt'', Lammps, Inr 0),
          (FileObj (next_obj w) ''stdout.txt'',
             CommandsString 0 (sample_text n (sample_lattice c)), Inr 0),
          (FileObj (next_obj w) ''stdout.txt'', Command 0 ''run 10000'',
             Inl ''ERROR: Lost atoms'')]\<rparr>)"
  unfolding simulate_def
  using assms by (simp add: action_defs sample_lattice_parameter sample_setup_text lost_atoms_def)

lemma sample_run_recording:
  assumes "''stdout.txt'' \<notin> set (denied w)" and "0 \<le> n" and "n < 10"
  shows "simulate (load_tables sample_db) recording ''Au'' (PFloat (Finite 300)) (PInt n) c w =
     (Inr 0,
      w\<lparr>files := (files w)
          (''stdout.txt'' \<mapsto> [], ''initial.data'' \<mapsto> sample_text n (sample_lattice c),
           ''atom.lammpstrj'' \<mapsto> ''run 10000'', ''initial.gro'' \<mapsto> ''gromacs''),
        next_obj := Suc (next_obj w),
        trace := trace w @ map (\<lambda>cl. (FileObj (next_obj w) ''stdout.txt'', cl, Inr 0))
          [Lammps, CommandsString 0 (sample_text n (sample_lattice c)), Command 0 ''run 10000'',
           Read ''initial.data'' ''lammps-data'', AtomsWrite 0 ''initial.gro'' ''gromacs'',
           MdLoad ''atom.lammpstrj'' ''initial.gro'', ShowMdtraj 0, ClearRepresentations 0,
           AddSpacefill 0 ''all'' ''cyan'' (float_lit 5 2),
           SetParameters 0 [(''clipNear'', 0), (''clipFar'', 100), (''clipDist'', 1)],
           Center 0]\<rparr>)"
  unfolding simulate_def
  using assms by (simp add: action_defs sample_lattice_parameter sample_setup_text recording_def)

lemma sample_run_unknown:
  "simulate (load_tables sample_db) X ''Xx'' t s c w = (Inl (KeyError ''Xx''), w)"
  by (simp add: simulate_phases sbind_def lift_def lattice_parameter_def ebind_def getitem_def
      load_tables_def sample_db_def)

lemma sample_strings:
  "float_str (fmul (Finite 300) (Finite 10)) = ''3000.0''"
  "float_str (fmul (float_lit 10 0) (float_lit 8 1)) = ''8.0''"
  "float_str (float_lit 4078 3) = ''4.078''"
  "float_str (float_lit 10 0) = ''10.0''"
  "float_str (float_lit 2294 4) = ''0.2294''"
  "float_str (float_lit 2646 3) = ''2.646''"
  "float_str (float_lit 19697 2) = ''196.97''"
  by code_simp+

lemma sample_digits: "digit 3 = CHR ''3''" "digit 4 = CHR ''4''"
  by (simp_all add: digit_def)

lemma beyond_double_overflows: "py_float (PInt beyond_double) = Inl OverflowError"
  by code_simp

lemma submitted_text:
  assumes "simulate tb X e t s c w = (r, w')" and "txt \<in> set (submitted (new_trace w w'))"
  obtains lp where "lattice_parameter tb e c = Inr lp" "setup_text tb e t s lp = Inr txt"
proof -
  from assms(1) obtain new where "trace w' = trace w @ new"
    and "\<forall>txt \<in> set (submitted new).
       \<exists>lp. lattice_parameter tb e c = Inr lp \<and> setup_text tb e t s lp = Inr txt"
    by (rule simulate_log)
  with assms(2) that show ?thesis
    by (auto simp: new_trace_append)
qed

lemma returned_submits:
  assumes "simulate tb X e t s c w = (Inr v, w')"
  obtains cfg where "submitted (new_trace w w') = [cfg]"
proof -
  from assms obtain new where n: "trace w' = trace w @ new" "length (submitted new) \<le> 1"
    "\<forall>u. (Inr v :: exn + handle) = Inr u \<longrightarrow> accepted new \<noteq> [] \<and> stdout w' = stdout w"
    by (rule simulate_log)
  then have "accepted new \<noteq> []"
    by simp
  with accepted_submitted [of new] have "submitted new \<noteq> []"
    by auto
  with n(2) obtain cfg where "submitted new = [cfg]"
    by (cases "submitted new") auto
  with n(1) that show ?thesis
    by (simp add: new_trace_append)
qed

lemma lattice_parameter_present:
  assumes "LJ_PARAMS tb e = Some lj" and "CRYSTAL_STRUCTURE tb e = Some cs"
  shows "lattice_parameter tb e c =
    Inr (if c then fmul (cutoff lj) (float_lit 8 1) else lattice_param cs)"
  using assms by (simp add: lattice_parameter_def ebind_def getitem_def)

lemma console_world_fields:
  "denied console_world = []" "trace console_world = []" "stdout console_world = Console"
  "next_obj console_world = 0" "files console_world = Map.empty"
  by (simp_all add: console_world_def)

lemma notebook_world_fields:
  "denied notebook_world = []" "trace notebook_world = []"
  "stdout notebook_world = FileObj 0 ''stdout.txt''" "next_obj notebook_world = 1"
  by (simp_all add: notebook_world_def)

lemma sample_submitted:
  assumes "''stdout.txt'' \<notin> set (denied w)" and "0 \<le> n" and "n < 10"
  shows "submitted (new_trace w
     (snd (simulate (load_tables sample_db) obliging ''Au'' (PFloat (Finite 300)) (PInt n) c w))) =
     [sample_text n (sample_lattice c)]"
  unfolding sample_run_obliging [OF assms] by (simp add: new_trace_def submitted_def)

lemma external_only_ext_call: "external_only (ext_call X c)"
  by (auto simp: external_only_def ext_call_def split: prod.splits sum.splits)

lemma external_only_sreturn: "external_only (sreturn v)"
  by (simp add: external_only_def sreturn_def)

lemma external_only_sbind:
  assumes "external_only m" and "\<And>v. external_only (f v)"
  shows "external_only (sbind m f)"
  unfolding external_only_def
proof (intro allI impI)
  fix w k w'
  assume run: "sbind m f w = (Inl k, w')"
  obtain r1 w1 where mw: "m w = (r1, w1)"
    by (cases "m w")
  show "\<exists>msg. k = ExternalError msg"
  proof (cases r1)
    case (Inl k1)
    with mw run have "m w = (Inl k, w')"
      by (simp add: sbind_def)
    with assms(1) show ?thesis
      unfolding external_only_def by blast
  next
    case (Inr v)
    with mw run have "f v w1 = (Inl k, w')"
      by (simp add: sbind_def)
    with assms(2) [of v] show ?thesis
      unfolding external_only_def by blast
  qed
qed

lemma visualize_error:
  assumes "visualize X w = (Inl k, w')"
  shows "\<exists>msg. k = ExternalError msg"
proof -
  have "external_only (visualize X)"
    unfolding visualize_def
    by (intro external_only_sbind external_only_ext_call external_only_sreturn)
  with assms show ?thesis
    unfolding external_only_def by blast
qed

lemma engine_part_error:
  assumes "engine_part tb X e t s lp w = (Inl k, w')"
  shows "(\<exists>msg. k = ExternalError msg) \<or> setup_text tb e t s lp = Inl k"
  using assms unfolding engine_part_def
  by (auto simp: sbind_def lift_def ext_call_def split: sum.splits prod.splits)

lemma simulate_error:
  assumes "simulate tb X e t s c w = (Inl k, w')"
  shows "(\<exists>msg. k = ExternalError msg) \<or> k = OSError ''stdout.txt'' \<or>
    lattice_parameter tb e c = Inl k \<or>
    (\<exists>lp. lattice_parameter tb e c = Inr lp \<and> setup_text tb e t s lp = Inl k)"
  using assms
proof (cases rule: simulate_cases)
  case (lookup k')
  then show ?thesis by simp
next
  case (denied lp)
  then show ?thesis by simp
next
  case (engine lp k')
  with engine_part_error [OF engine(3)] show ?thesis by auto
next
  case (display lp h we k')
  with visualize_error [OF display(4)] show ?thesis by auto
next
  case (returned lp h we view wv)
  then show ?thesis by simp
qed

lemma configuration_of_valid_call:
  assumes "LJ_PARAMS tb e = Some lj" and "ATOMIC_MASS tb e = Some m"
    and "CRYSTAL_STRUCTURE tb e = Some cs"
    and "py_float t = Inr x" and "py_int s = Inr n" and "int_str n = Inr sz"
    and "simulate tb X e t s c w = (r, w')"
  obtains lp cfg where
    "lp = (if c then fmul (cutoff lj) (float_lit 8 1) else lattice_param cs)"
    "lattice_parameter tb e c = Inr lp" "setup_text tb e t s lp = Inr cfg"
    "cfg = fstring (setup_lines (float_str (fmul x (Finite 10))) sz (symmetry cs)
       (float_str lp) (float_str (cutoff lj)) (float_str (epsilon lj)) (float_str (sigma lj))
       (float_str m))"
    "set (submitted (new_trace w w')) \<subseteq> {cfg}"
    "(\<exists>v. r = Inr v) \<longrightarrow> submitted (new_trace w w') = [cfg]"
proof -
  let ?lp = "if c then fmul (cutoff lj) (float_lit 8 1) else lattice_param cs"
  let ?cfg = "fstring (setup_lines (float_str (fmul x (Finite 10))) sz (symmetry cs)
       (float_str ?lp) (float_str (cutoff lj)) (float_str (epsilon lj)) (float_str (sigma lj))
       (float_str m))"
  have lp: "lattice_parameter tb e c = Inr ?lp"
    using assms(1,3) by (rule lattice_parameter_present)
  have st: "setup_text tb e t s ?lp = Inr ?cfg"
    using assms(4,5,6,3,1,2) by (rule setup_text_valid)
  have sub: "set (submitted (new_trace w w')) \<subseteq> {?cfg}"
  proof
    fix u
    assume "u \<in> set (submitted (new_trace w w'))"
    with assms(7) obtain lp' where "lattice_parameter tb e c = Inr lp'"
      and "setup_text tb e t s lp' = Inr u"
      by (rule submitted_text)
    with lp st show "u \<in> {?cfg}"
      by simp
  qed
  have ret: "(\<exists>v. r = Inr v) \<longrightarrow> submitted (new_trace w w') = [?cfg]"
  proof
    assume "\<exists>v. r = Inr v"
    then obtain v where "simulate tb X e t s c w = (Inr v, w')"
      using assms(7) by auto
    then obtain u where "submitted (new_trace w w') = [u]"
      by (rule returned_submits)
    with sub show "submitted (new_trace w w') = [?cfg]"
      by simp
  qed
  from refl lp st refl sub ret show ?thesis
    by (rule that)
qed

lemma no_text_no_submission:
  assumes "lattice_parameter tb e c = Inr lp" and "setup_text tb e t s lp = Inl k"
    and "simulate tb X e t s c w = (r, w')"
  shows "submitted (new_trace w w') = [] \<and> (\<forall>v. r \<noteq> Inr v)"
proof -
  have none: "submitted (new_trace w w') = []"
  proof (cases "submitted (new_trace w w')")
    case Nil
    then show ?thesis .
  next
    case (Cons u us)
    then have "u \<in> set (submitted (new_trace w w'))"
      by simp
    with assms(3) obtain lp' where "lattice_parameter tb e c = Inr lp'"
      and "setup_text tb e t s lp' = Inr u"
      by (rule submitted_text)
    with assms(1,2) show ?thesis
      by simp
  qed
  have "r \<noteq> Inr v" for v
  proof
    assume "r = Inr v"
    with assms(3) have "simulate tb X e t s c w = (Inr v, w')"
      by simp
    then obtain u where "submitted (new_trace w w') = [u]"
      by (rule returned_submits)
    with none show False
      by simp
  qed
  with none show ?thesis
    by simp
qed

lemma emits_lift: "emits P (lift r)"
  by (simp add: emits_def lift_def)

lemma visualize_fixed_names: "emits fixed_names (visualize X)"
  unfolding visualize_def
  by (intro emits_sbind emits_ext_call emits_sreturn) (simp_all add: fixed_names_def)

lemma engine_part_fixed_names: "emits fixed_names (engine_part tb X e t s lp)"
  unfolding engine_part_def
  by (intro emits_sbind emits_ext_call emits_lift) (simp_all add: fixed_names_def)

lemma simulate_fixed_names:
  assumes "simulate tb X e t s c w = (r, w')"
  shows "\<forall>(out, cl, res) \<in> set (new_trace w w'). fixed_names cl"
  using assms
proof (cases rule: simulate_cases)
  case (lookup k)
  then show ?thesis by (simp add: new_trace_def)
next
  case (denied lp)
  then show ?thesis by (simp add: new_trace_def)
next
  case (engine lp k)
  obtain new where
    "stdout w' = stdout (redirected w)"
    "trace w' = trace (redirected w) @ new"
    "\<forall>(out, c, res) \<in> set new. out = stdout (redirected w) \<and> fixed_names c"
    by (rule emitsD [OF engine_part_fixed_names engine(3)]) (rule that)
  then show ?thesis
    by (auto simp: new_trace_def redirected_def)
next
  case (display lp h we k)
  obtain new where 1:
    "stdout we = stdout (redirected w)"
    "trace we = trace (redirected w) @ new"
    "\<forall>(out, c, res) \<in> set new. out = stdout (redirected w) \<and> fixed_names c"
    by (rule emitsD [OF engine_part_fixed_names display(3)]) (rule that)
  obtain new2 where 2:
    "stdout w' = stdout we"
    "trace w' = trace we @ new2"
    "\<forall>(out, c, res) \<in> set new2. out = stdout we \<and> fixed_names c"
    by (rule emitsD [OF visualize_fixed_names display(4)]) (rule that)
  from 1 2 show ?thesis
    by (auto simp: new_trace_def redirected_def)
next
  case (returned lp h we view wv)
  obtain new where 1:
    "stdout we = stdout (redirected w)"
    "trace we = trace (redirected w) @ new"
    "\<forall>(out, c, res) \<in> set new. out = stdout (redirected w) \<and> fixed_names c"
    by (rule emitsD [OF engine_part_fixed_names returned(3)]) (rule that)
  obtain new2 where 2:
    "stdout wv = stdout we"
    "trace wv = trace we @ new2"
    "\<forall>(out, c, res) \<in> set new2. out = stdout we \<and> fixed_names c"
    by (rule emitsD [OF visualize_fixed_names returned(4)]) (rule that)
  from 1 2 returned(6) show ?thesis
    by (auto simp: new_trace_def redirected_def)
qed

lemma earlier_log_discarded:
  assumes "lattice_parameter tb e c = Inr lp" and "''stdout.txt'' \<notin> set (denied w)"
  shows "simulate tb X e t s c (w\<lparr>files := (files w)(''stdout.txt'' := old)\<rparr>) =
    simulate tb X e t s c w"
  using assms by (simp add: simulate_phases sbind_def lift_def get_stdout_def open_w_def)

lemma truncation:
  fixes q :: rat
  defines "k \<equiv> (if 0 \<le> q then \<lfloor>q\<rfloor> else \<lceil>q\<rceil>)"
  shows "\<bar>of_int k\<bar> \<le> \<bar>q\<bar> \<and> \<bar>q\<bar> < \<bar>of_int k\<bar> + 1 \<and> 0 \<le> of_int k * q"
proof (cases "0 \<le> q")
  case True
  then have k: "k = \<lfloor>q\<rfloor>"
    by (simp add: k_def)
  have "0 \<le> \<lfloor>q\<rfloor>"
    using True by simp
  then have nn: "(0::rat) \<le> of_int \<lfloor>q\<rfloor>"
    by simp
  have b: "of_int \<lfloor>q\<rfloor> \<le> q" "q < of_int \<lfloor>q\<rfloor> + 1"
    by linarith+
  have "\<bar>of_int \<lfloor>q\<rfloor> :: rat\<bar> = of_int \<lfloor>q\<rfloor>" and "\<bar>q\<bar> = q"
    using nn True by (simp_all only: abs_of_nonneg)
  moreover have "0 \<le> of_int \<lfloor>q\<rfloor> * q"
    using nn True by (rule mult_nonneg_nonneg)
  ultimately show ?thesis
    unfolding k using b by (simp only: simp_thms)
next
  case False
  then have k: "k = \<lceil>q\<rceil>"
    by (simp add: k_def)
  from False have neg: "q \<le> 0"
    by simp
  then have "\<lceil>q\<rceil> \<le> 0"
    by (simp only: ceiling_le_zero)
  then have np: "of_int \<lceil>q\<rceil> \<le> (0::rat)"
    by simp
  have b: "q \<le> of_int \<lceil>q\<rceil>" "of_int \<lceil>q\<rceil> < q + 1"
    by linarith+
  have "\<bar>of_int \<lceil>q\<rceil> :: rat\<bar> = - of_int \<lceil>q\<rceil>" and "\<bar>q\<bar> = - q"
    using np neg by (simp_all only: abs_of_nonpos)
  moreover have "0 \<le> of_int \<lceil>q\<rceil> * q"
    using np neg by (rule mult_nonpos_nonpos)
  moreover have "- of_int \<lceil>q\<rceil> \<le> - q" and "- q < - of_int \<lceil>q\<rceil> + 1"
    using b by linarith+
  ultimately show ?thesis
    unfolding k by (simp only: simp_thms)
qed

subsection \<open>Ints that a double holds exactly\<close>

lemma natpow_power: "0 \<le> e \<Longrightarrow> natpow b e = b ^ nat e"
proof (induction b e rule: natpow.induct)
  case (1 b e)
  show ?case
  proof (cases "e \<le> 0")
    case True
    with 1(3) have "e = 0" by simp
    then show ?thesis by (simp add: natpow.simps [of b 0])
  next
    case False
    then have pos: "0 < e" by simp
    then have h: "0 \<le> e div 2" by simp
    have sq: "(b * b) ^ nat (e div 2) = b ^ (2 * nat (e div 2))"
      by (simp add: power_mult power2_eq_square)
    show ?thesis
    proof (cases "even e")
      case True
      then have "nat e = 2 * nat (e div 2)"
        using pos by (auto elim!: evenE simp: nat_mult_distrib)
      with 1(1) [OF False True h] sq False True show ?thesis
        by (simp add: natpow.simps [of b e])
    next
      case odd: False
      then have "nat e = Suc (2 * nat (e div 2))"
        using pos by (auto elim!: oddE simp: nat_mult_distrib nat_add_distrib)
      with 1(2) [OF False odd h] sq False odd show ?thesis
        by (simp add: natpow.simps [of b e])
    qed
  qed
qed

lemma ilog_bounds:
  "2 \<le> b \<Longrightarrow> 1 \<le> n \<Longrightarrow> 0 \<le> ilog b n \<and> b ^ nat (ilog b n) \<le> n \<and> n < b ^ nat (ilog b n + 1)"
proof (induction b n rule: ilog.induct)
  case (1 b n)
  show ?case
  proof (cases "n < b")
    case True
    with 1(2,3) show ?thesis
      by (simp add: ilog.simps [of b n])
  next
    case False
    with 1(2) have c: "\<not> (b < 2 \<or> n < b)" by simp
    have bpos: "0 < b" using 1(2) by simp
    from False have "b div b \<le> n div b"
      using bpos by (intro zdiv_mono1) simp_all
    with bpos have d: "1 \<le> n div b"
      by simp
    from 1(1) [OF c 1(2) d] have ih: "0 \<le> ilog b (n div b)"
      "b ^ nat (ilog b (n div b)) \<le> n div b" "n div b < b ^ nat (ilog b (n div b) + 1)"
      by simp_all
    let ?k = "ilog b (n div b)"
    have eq: "ilog b n = 1 + ?k"
      using c by (simp add: ilog.simps [of b n])
    have dm: "n = b * (n div b) + n mod b"
      by simp
    have m: "0 \<le> n mod b" "n mod b < b"
      using bpos by simp_all
    have "b * b ^ nat ?k \<le> b * (n div b)"
      using ih(2) bpos by simp
    also have "\<dots> \<le> n"
      using dm m(1) by linarith
    finally have lower: "b ^ nat (1 + ?k) \<le> n"
      using ih(1) by (simp add: nat_add_distrib)
    have "b * (n div b + 1) = b * (n div b) + b"
      by (simp add: distrib_left)
    then have "n < b * (n div b + 1)"
      using dm m(2) by linarith
    also have "\<dots> \<le> b * b ^ nat (?k + 1)"
      using ih(3) bpos by simp
    finally have upper: "n < b ^ nat (1 + ?k + 1)"
      using ih(1) by (simp add: nat_add_distrib add.commute)
    from lower upper ih(1) show ?thesis
      unfolding eq by simp
  qed
qed


lemma pow_int_power: "pow_int b e = (if 0 \<le> e then of_int b ^ nat e else 1 / of_int b ^ nat (- e))"
  by (simp add: pow_int_def natpow_power)

lemma flog_of_int:
  assumes "1 \<le> n"
  shows "flog 2 (of_int n) = ilog 2 n"
proof -
  from ilog_bounds [of 2 n] assms have b: "0 \<le> ilog 2 n" "2 ^ nat (ilog 2 n) \<le> n"
    by simp_all
  have "(of_int (2 ^ nat (ilog 2 n)) :: rat) \<le> of_int n"
    using b(2) by (simp only: of_int_le_iff)
  then have "pow_int 2 (ilog 2 n) \<le> of_int n"
    using b(1) by (simp add: pow_int_power)
  moreover have "ilog 2 1 = 0"
    by (simp add: ilog.simps [of 2 1])
  ultimately show ?thesis
    by (simp add: flog_def)
qed

lemma round_half_even_of_int: "round_half_even (of_int m) = m"
  by (simp add: round_half_even_def)

lemma round_double_of_int:
  assumes "1 \<le> n" and "n < 2 ^ 53"
  shows "round_double neg (of_int n) = Finite (if neg then - of_int n else of_int n)"
proof -
  let ?k = "ilog 2 n"
  from ilog_bounds [of 2 n] assms(1) have b: "0 \<le> ?k" "2 ^ nat ?k \<le> n"
    by simp_all
  have lt: "(2::int) ^ nat ?k < 2 ^ 53"
    using b(2) assms(2) by linarith
  have "nat ?k < 53"
    by (rule power_less_imp_less_exp [OF _ lt]) simp
  then have k: "?k \<le> 52"
    by linarith
  define d where "d = nat (52 - ?k)"
  have e: "max (flog 2 (of_int n) - 52) (- 1074) = - int d"
    using b(1) k by (simp add: flog_of_int [OF assms(1)] d_def)
  have p: "pow_int 2 (- int d) = 1 / 2 ^ d"
    by (cases "d = 0") (simp_all add: pow_int_power)
  have q: "(of_int n :: rat) / pow_int 2 (- int d) = of_int (n * 2 ^ d)"
    by (simp add: p)
  have v: "of_int (round_half_even (of_int n / pow_int 2 (- int d))) * pow_int 2 (- int d)
      = (of_int n :: rat)"
    unfolding q round_half_even_of_int by (simp add: p)
  have "n < 2 ^ 1024"
    using assms(2) by (rule less_trans) simp
  then have "(of_int n :: rat) < of_int (2 ^ 1024)"
    by (simp only: of_int_less_iff)
  then have big: "\<not> pow_int 2 1024 \<le> (of_int n :: rat)"
    by (simp add: pow_int_power)
  have nz: "(of_int n :: rat) \<noteq> 0"
    using assms(1) by simp
  show ?thesis
    using nz big by (simp add: round_double_def Let_def e v)
qed

lemma py_float_small_int:
  assumes "\<bar>i\<bar> < 2 ^ 53"
  shows "py_float (PInt i) = Inr (Finite (of_int i))"
proof (cases "i = 0")
  case True
  then show ?thesis
    by (simp add: py_float_def round_double_def signed_zero_def)
next
  case False
  then have "1 \<le> \<bar>i\<bar>"
    by simp
  from round_double_of_int [OF this assms, of "i < 0"] show ?thesis
    by (simp add: py_float_def abs_if split: if_splits)
qed

lemma negative_strings:
  "float_str (fmul (Finite (- 5)) (Finite 10)) = ''-50.0''"
  "int_str (- 2) = Inr ''-2''"
  by code_simp+

subsection \<open>Ints that can be formatted\<close>

lemma digits10_nonempty: "digits10 n \<noteq> []"
  by (subst digits10.simps) simp

lemma digits10_length:
  assumes "0 \<le> n" and "0 < k"
  shows "length (digits10 n) \<le> k \<longleftrightarrow> n < 10 ^ k"
  using assms
proof (induction n arbitrary: k rule: digits10.induct)
  case (1 n)
  show ?case
  proof (cases "n < 10")
    case True
    have "(10::int) ^ 1 \<le> 10 ^ k"
      using 1(3) by (intro power_increasing) simp_all
    with True have "n < 10 ^ k"
      by simp
    moreover have "length (digits10 n) = 1"
      using True by (subst digits10.simps) simp
    ultimately show ?thesis
      using 1(3) by simp
  next
    case False
    then have len: "length (digits10 n) = Suc (length (digits10 (n div 10)))"
      by (subst digits10.simps) simp
    have nn: "0 \<le> n div 10"
      using 1(2) by simp
    show ?thesis
    proof (cases "k = 1")
      case True
      have "length (digits10 (n div 10)) \<noteq> 0"
        using digits10_nonempty by simp
      with len True False show ?thesis
        by simp
    next
      case k: False
      with 1(3) obtain j where j: "k = Suc j" "0 < j"
        by (cases k) auto
      from 1(1) [OF False nn j(2)]
      have "length (digits10 (n div 10)) \<le> j \<longleftrightarrow> n div 10 < 10 ^ j" .
      moreover have "n div 10 < a \<longleftrightarrow> n < a * 10" for a :: int
        by presburger
      ultimately have "length (digits10 (n div 10)) \<le> j \<longleftrightarrow> n < 10 ^ j * 10"
        by simp
      then show ?thesis
        using len j by (simp add: mult.commute)
    qed
  qed
qed

lemma int_str_cases:
  "int_str i =
     (if \<bar>i\<bar> < 10 ^ nat max_str_digits
      then Inr ((if i < 0 then ''-'' else []) @ digits10 \<bar>i\<bar>)
      else Inl ValueError)"
proof -
  define short where "short \<longleftrightarrow> \<bar>i\<bar> < 10 ^ nat max_str_digits"
  have "length (digits10 \<bar>i\<bar>) \<le> nat max_str_digits \<longleftrightarrow> short"
    unfolding short_def by (rule digits10_length) (simp_all add: max_str_digits_def)
  moreover have "max_str_digits < int (length (digits10 \<bar>i\<bar>)) \<longleftrightarrow>
      \<not> length (digits10 \<bar>i\<bar>) \<le> nat max_str_digits"
    by (auto simp: max_str_digits_def)
  ultimately have "max_str_digits < int (length (digits10 \<bar>i\<bar>)) \<longleftrightarrow> \<not> short"
    by simp
  then have "int_str i =
     (if short then Inr ((if i < 0 then ''-'' else []) @ digits10 \<bar>i\<bar>) else Inl ValueError)"
    by (simp add: int_str_def Let_def)
  then show ?thesis
    unfolding short_def .
qed

subsection \<open>Two runs of the same call with libraries that overwrite\<close>

lemma alike_ext_call:
  assumes "\<And>k c s1 s2. c \<noteq> Lammps \<Longrightarrow> R k s1 s2 \<Longrightarrow> reads c \<subseteq> fst k \<Longrightarrow>
      fst (X c s1) = fst (X c s2) \<and> R (effect c k) (snd (X c s1)) (snd (X c s2))"
    and "c \<noteq> Lammps" and "reads c \<subseteq> fst k" and "effect c k = k'"
  shows "alike (R k) (ext_call X c) (R k')"
  unfolding alike_def
proof (intro allI impI, elim conjE)
  fix w1 w2 :: "'a world" and v1 v2 w1' w2'
  assume r: "R k (lib_state w1) (lib_state w2)"
    and 1: "ext_call X c w1 = (Inr v1, w1')" and 2: "ext_call X c w2 = (Inr v2, w2')"
  from 1 have a: "fst (X c (lib_state w1)) = Inr v1" "lib_state w1' = snd (X c (lib_state w1))"
    by (auto simp: ext_call_def lib_state_def split: prod.splits sum.splits)
  from 2 have b: "fst (X c (lib_state w2)) = Inr v2" "lib_state w2' = snd (X c (lib_state w2))"
    by (auto simp: ext_call_def lib_state_def split: prod.splits sum.splits)
  from assms(1) [OF assms(2) r assms(3)] a b assms(4)
  show "v1 = v2 \<and> R k' (lib_state w1') (lib_state w2')"
    by simp
qed

lemma alike_Lammps:
  assumes "\<And>s1 s2. fst s1 ''stdout.txt'' = fst s2 ''stdout.txt'' \<Longrightarrow>
      fst (X Lammps s1) = fst (X Lammps s2) \<and>
      R ({''stdout.txt''}, {}) (snd (X Lammps s1)) (snd (X Lammps s2))"
  shows "alike (\<lambda>s1 s2. fst s1 ''stdout.txt'' = fst s2 ''stdout.txt'') (ext_call X Lammps)
    (R ({''stdout.txt''}, {}))"
  unfolding alike_def
proof (intro allI impI, elim conjE)
  fix w1 w2 :: "'a world" and v1 v2 w1' w2'
  assume r: "fst (lib_state w1) ''stdout.txt'' = fst (lib_state w2) ''stdout.txt''"
    and 1: "ext_call X Lammps w1 = (Inr v1, w1')" and 2: "ext_call X Lammps w2 = (Inr v2, w2')"
  from 1 have a: "fst (X Lammps (lib_state w1)) = Inr v1"
    "lib_state w1' = snd (X Lammps (lib_state w1))"
    by (auto simp: ext_call_def lib_state_def split: prod.splits sum.splits)
  from 2 have b: "fst (X Lammps (lib_state w2)) = Inr v2"
    "lib_state w2' = snd (X Lammps (lib_state w2))"
    by (auto simp: ext_call_def lib_state_def split: prod.splits sum.splits)
  from assms [OF r] a b
  show "v1 = v2 \<and> R ({''stdout.txt''}, {}) (lib_state w1') (lib_state w2')"
    by simp
qed

lemma alike_sreturn: "alike P (sreturn v) P"
  by (simp add: alike_def sreturn_def)

lemma alike_lift: "alike P (lift r) P"
  by (auto simp: alike_def lift_def)

lemma alike_sbind:
  assumes m: "alike P m Q" and f: "\<And>v w w'. m w = (Inr v, w') \<Longrightarrow> alike Q (f v) S"
  shows "alike P (sbind m f) S"
  unfolding alike_def
proof (intro allI impI, elim conjE)
  fix w1 w2 v1 v2 w1' w2'
  assume p: "P (lib_state w1) (lib_state w2)"
    and 1: "sbind m f w1 = (Inr v1, w1')" and 2: "sbind m f w2 = (Inr v2, w2')"
  from 1 obtain a1 u1 where a1: "m w1 = (Inr a1, u1)" "f a1 u1 = (Inr v1, w1')"
    by (auto simp: sbind_def split: prod.splits sum.splits)
  from 2 obtain a2 u2 where a2: "m w2 = (Inr a2, u2)" "f a2 u2 = (Inr v2, w2')"
    by (auto simp: sbind_def split: prod.splits sum.splits)
  from m p a1(1) a2(1) have eq: "a1 = a2" and q: "Q (lib_state u1) (lib_state u2)"
    unfolding alike_def by blast+
  from f [OF a1(1)] q a1(2) a2(2) eq show "v1 = v2 \<and> S (lib_state w1') (lib_state w2')"
    unfolding alike_def by blast
qed

lemma alikeD:
  assumes "alike P m Q" and "P (lib_state w1) (lib_state w2)"
    and "m w1 = (Inr v1, w1')" and "m w2 = (Inr v2, w2')"
  shows "v1 = v2 \<and> Q (lib_state w1') (lib_state w2')"
  using assms unfolding alike_def by blast

lemma visualize_alike:
  assumes step: "\<And>k c s1 s2. c \<noteq> Lammps \<Longrightarrow> R k s1 s2 \<Longrightarrow> reads c \<subseteq> fst k \<Longrightarrow>
      fst (X c s1) = fst (X c s2) \<and> R (effect c k) (snd (X c s1)) (snd (X c s2))"
    and "''initial.data'' \<in> W" and "''atom.lammpstrj'' \<in> W"
  shows "alike (R (W, D)) (visualize X) (R (insert ''initial.gro'' W, D))"
proof -
  let ?k = "(insert ''initial.gro'' W, D)"
  note call = alike_ext_call [of R X, OF step]
  have 1: "alike (R (W, D)) (ext_call X (Read ''initial.data'' ''lammps-data'')) (R (W, D))"
    using assms(2) by (intro call) simp_all
  have 2: "alike (R (W, D)) (ext_call X (AtomsWrite atoms ''initial.gro'' ''gromacs'')) (R ?k)"
    for atoms
    by (intro call) simp_all
  have 3: "alike (R ?k) (ext_call X (MdLoad ''atom.lammpstrj'' ''initial.gro'')) (R ?k)"
    using assms(3) by (intro call) simp_all
  have 4: "alike (R ?k) (ext_call X c) (R ?k)"
    if "c \<noteq> Lammps" "reads c = {}" "effect c ?k = ?k" for c
    using that by (intro call) simp_all
  show ?thesis
    unfolding visualize_def
    by (intro alike_sbind [OF 1] alike_sbind [OF 2] alike_sbind [OF 3] alike_sbind [OF 4]
        alike_sreturn) simp_all
qed

lemma engine_part_alike:
  assumes start: "\<And>s1 s2. fst s1 ''stdout.txt'' = fst s2 ''stdout.txt'' \<Longrightarrow>
      fst (X Lammps s1) = fst (X Lammps s2) \<and>
      R ({''stdout.txt''}, {}) (snd (X Lammps s1)) (snd (X Lammps s2))"
    and step: "\<And>k c s1 s2. c \<noteq> Lammps \<Longrightarrow> R k s1 s2 \<Longrightarrow> reads c \<subseteq> fst k \<Longrightarrow>
      fst (X c s1) = fst (X c s2) \<and> R (effect c k) (snd (X c s1)) (snd (X c s2))"
  shows "alike (\<lambda>s1 s2. fst s1 ''stdout.txt'' = fst s2 ''stdout.txt'')
    (engine_part tb X e t s lp)
    (R ({''stdout.txt'', ''initial.data'', ''atom.lammpstrj''}, {''atom.lammpstrj''}))"
proof -
  note call = alike_ext_call [of R X, OF step]
  have 1: "alike (R ({''stdout.txt''}, {})) (ext_call X (CommandsString l cfg))
      (R ({''stdout.txt'', ''initial.data''}, {''atom.lammpstrj''}))"
    if "setup_text tb e t s lp = Inr cfg" for l cfg
  proof -
    from that obtain a b c d e' f g h where "cfg = fstring (setup_lines a b c d e' f g h)"
      by (elim setup_text_fields)
    then have "contains_line cfg ''    write_data initial.data''"
      and "contains_line cfg ''    dump mydump all atom ${writefreq} atom.lammpstrj''"
      by (simp_all only: setup_lines_contain(10,11))
    then show ?thesis
      by (intro call) auto
  qed
  have 2: "alike (R ({''stdout.txt'', ''initial.data''}, {''atom.lammpstrj''}))
      (ext_call X (Command l ''run 10000''))
      (R ({''stdout.txt'', ''initial.data'', ''atom.lammpstrj''}, {''atom.lammpstrj''}))" for l
    by (intro call) auto
  show ?thesis
    unfolding engine_part_def
  proof (intro alike_sbind [OF alike_Lammps [of X R, OF start]] alike_sbind [OF alike_lift])
    fix l cfg and w w' :: "'a world"
    assume "lift (setup_text tb e t s lp) w = (Inr cfg, w')"
    then have "setup_text tb e t s lp = Inr cfg"
      by (simp add: lift_def)
    from alike_sbind [OF 1 [OF this] 2]
    show "alike (R ({''stdout.txt''}, {}))
        (sbind (ext_call X (CommandsString l cfg)) (\<lambda>_. ext_call X (Command l ''run 10000'')))
        (R ({''stdout.txt'', ''initial.data'', ''atom.lammpstrj''}, {''atom.lammpstrj''}))" .
  qed
qed

lemma simulate_alike:
  assumes "overwriting X"
    and 1: "simulate tb X e t s c w1 = (Inr v1, w1')"
    and 2: "simulate tb X e t s c w2 = (Inr v2, w2')"
  shows "v1 = v2 \<and>
    (\<forall>p \<in> {''stdout.txt'', ''initial.data'', ''initial.gro'', ''atom.lammpstrj''}.
       files w1' p = files w2' p)"
proof -
  from assms(1) obtain R :: "string set \<times> string set \<Rightarrow> fsys \<times> 'a \<Rightarrow> fsys \<times> 'a \<Rightarrow> bool"
    where R:
    "(\<forall>k s1 s2. R k s1 s2 \<longrightarrow> (\<forall>p \<in> fst k. fst s1 p = fst s2 p)) \<and>
     (\<forall>s1 s2. fst s1 ''stdout.txt'' = fst s2 ''stdout.txt'' \<longrightarrow>
        fst (X Lammps s1) = fst (X Lammps s2) \<and>
        R ({''stdout.txt''}, {}) (snd (X Lammps s1)) (snd (X Lammps s2))) \<and>
     (\<forall>k c s1 s2. c \<noteq> Lammps \<and> R k s1 s2 \<and> reads c \<subseteq> fst k \<longrightarrow>
        fst (X c s1) = fst (X c s2) \<and>
        R (effect c k) (snd (X c s1)) (snd (X c s2)))"
    unfolding overwriting_def ..
  note same = R [THEN conjunct1, rule_format]
  note start = R [THEN conjunct2, THEN conjunct1, rule_format]
  have step: "fst (X c s1) = fst (X c s2) \<and> R (effect c k) (snd (X c s1)) (snd (X c s2))"
    if "c \<noteq> Lammps" "R k s1 s2" "reads c \<subseteq> fst k" for k c s1 s2
    by (rule R [THEN conjunct2, THEN conjunct2, rule_format]) (intro conjI that)
  let ?W = "{''stdout.txt'', ''initial.data'', ''atom.lammpstrj''}"
  let ?D = "{''atom.lammpstrj''}"
  from 1 obtain lp h1 we1 wv1 where r1: "lattice_parameter tb e c = Inr lp"
    "engine_part tb X e t s lp (redirected w1) = (Inr h1, we1)"
    "visualize X we1 = (Inr v1, wv1)" "w1' = wv1\<lparr>stdout := stdout w1\<rparr>"
    by (cases rule: simulate_cases) auto
  from 2 obtain lp' h2 we2 wv2 where r2: "lattice_parameter tb e c = Inr lp'"
    "engine_part tb X e t s lp' (redirected w2) = (Inr h2, we2)"
    "visualize X we2 = (Inr v2, wv2)" "w2' = wv2\<lparr>stdout := stdout w2\<rparr>"
    by (cases rule: simulate_cases) auto
  from r1(1) r2(1) have lp: "lp' = lp"
    by simp
  have "fst (lib_state (redirected w1)) ''stdout.txt'' = fst (lib_state (redirected w2)) ''stdout.txt''"
    by (simp add: lib_state_def redirected_def)
  from alikeD [OF engine_part_alike [where R = R and X = X and tb = tb and e = e and t = t
        and s = s and lp = lp, OF start step] this r1(2) r2(2) [unfolded lp]]
  have e: "R (?W, ?D) (lib_state we1) (lib_state we2)"
    by simp
  have "alike (R (?W, ?D)) (visualize X) (R (insert ''initial.gro'' ?W, ?D))"
    by (rule visualize_alike [where R = R and X = X, OF step]) simp_all
  from alikeD [OF this e r1(3) r2(3)] have v: "v1 = v2"
    "R (insert ''initial.gro'' ?W, ?D) (lib_state wv1) (lib_state wv2)"
    by simp_all
  have "files w1' p = files w2' p"
    if "p \<in> {''stdout.txt'', ''initial.data'', ''initial.gro'', ''atom.lammpstrj''}" for p
  proof -
    from that have "p \<in> fst (insert ''initial.gro'' ?W, ?D)"
      by auto
    from same [OF v(2) this] show ?thesis
      by (simp add: lib_state_def r1(4) r2(4))
  qed
  with v(1) show ?thesis
    by simp
qed

lemma recording_overwriting: "overwriting recording"
proof -
  define R :: "string set \<times> string set \<Rightarrow> fsys \<times> unit \<Rightarrow> fsys \<times> unit \<Rightarrow> bool"
    where "R k s1 s2 \<longleftrightarrow> snd k \<subseteq> {''atom.lammpstrj''} \<and> (\<forall>p \<in> fst k. fst s1 p = fst s2 p)"
    for k s1 s2
  have 1: "\<forall>k s1 s2. R k s1 s2 \<longrightarrow> (\<forall>p \<in> fst k. fst s1 p = fst s2 p)"
    by (simp add: R_def)
  have 2: "\<forall>s1 s2. fst s1 ''stdout.txt'' = fst s2 ''stdout.txt'' \<longrightarrow>
      fst (recording Lammps s1) = fst (recording Lammps s2) \<and>
      R ({''stdout.txt''}, {}) (snd (recording Lammps s1)) (snd (recording Lammps s2))"
    by (simp add: R_def recording_def)
  have 3: "\<forall>k c s1 s2. c \<noteq> Lammps \<and> R k s1 s2 \<and> reads c \<subseteq> fst k \<longrightarrow>
      fst (recording c s1) = fst (recording c s2) \<and>
      R (effect c k) (snd (recording c s1)) (snd (recording c s2))"
  proof (intro allI impI, elim conjE)
    fix k :: "string set \<times> string set" and c and s1 s2 :: "fsys \<times> unit"
    obtain W D where k: "k = (W, D)"
      by (cases k)
    assume "c \<noteq> Lammps" and "R k s1 s2" and "reads c \<subseteq> fst k"
    then show "fst (recording c s1) = fst (recording c s2) \<and>
      R (effect c k) (snd (recording c s1)) (snd (recording c s2))"
      unfolding k by (cases c) (auto simp: R_def recording_def)
  qed
  from 1 2 3 show ?thesis
    unfolding overwriting_def by (intro exI [of _ R] conjI)
qed

lemma engine_part_submits:
  assumes "setup_text tb e t s lp = Inr cfg"
    and "fst (X Lammps (files w, xstate w)) = Inr l"
    and "engine_part tb X e t s lp w = (r, w')"
  obtains new where "trace w' = trace w @ new" "submitted new = [cfg]"
  using assms unfolding engine_part_def
  by (auto simp: sbind_def lift_def ext_call_def submitted_def
      split: sum.splits prod.splits if_splits)

lemma started_submits:
  assumes lp: "lattice_parameter tb e c = Inr lp" and cfg: "setup_text tb e t s lp = Inr cfg"
    and "''stdout.txt'' \<notin> set (denied w)"
    and "fst (X Lammps ((files w)(''stdout.txt'' \<mapsto> []), xstate w)) = Inr l"
    and run: "simulate tb X e t s c w = (r, w')"
  shows "submitted (new_trace w w') = [cfg]"
proof -
  have l: "fst (X Lammps (files (redirected w), xstate (redirected w))) = Inr l"
    using assms(4) by (simp add: redirected_def)
  have t: "trace (redirected w) = trace w"
    by (simp add: redirected_def)
  from run show ?thesis
  proof (cases rule: simulate_cases)
    case (lookup k)
    with lp show ?thesis by simp
  next
    case (denied lp')
    with assms(3) show ?thesis by simp
  next
    case (engine lp' k)
    with lp have "engine_part tb X e t s lp (redirected w) = (Inl k, w')"
      by simp
    with cfg l obtain new where "trace w' = trace (redirected w) @ new" "submitted new = [cfg]"
      by (rule engine_part_submits)
    then show ?thesis
      by (simp add: t new_trace_append)
  next
    case (display lp' h we k)
    with lp have "engine_part tb X e t s lp (redirected w) = (Inr h, we)"
      by simp
    with cfg l obtain new where n: "trace we = trace (redirected w) @ new" "submitted new = [cfg]"
      by (rule engine_part_submits)
    from display(4) obtain new2 where v:
      "trace w' = trace we @ new2" "stdout w' = stdout we"
      "\<forall>(out, c, res) \<in> set new2. out = stdout we \<and> \<not> engine_call c"
      by (rule visualize_log) (rule that)
    have "trace w' = trace w @ (new @ new2)"
      using n(1) v(1) t by simp
    then show ?thesis
      by (simp add: new_trace_append submitted_append n(2) no_engine_calls(1) [OF v(3)])
  next
    case (returned lp' h we view wv)
    with lp have "engine_part tb X e t s lp (redirected w) = (Inr h, we)"
      by simp
    with cfg l obtain new where n: "trace we = trace (redirected w) @ new" "submitted new = [cfg]"
      by (rule engine_part_submits)
    from returned(4) obtain new2 where v:
      "trace wv = trace we @ new2" "stdout wv = stdout we"
      "\<forall>(out, c, res) \<in> set new2. out = stdout we \<and> \<not> engine_call c"
      by (rule visualize_log) (rule that)
    have "trace w' = trace w @ (new @ new2)"
      using n(1) v(1) t returned(6) by simp
    then show ?thesis
      by (simp add: new_trace_append submitted_append n(2) no_engine_calls(1) [OF v(3)])
  qed
qed

lemma sample_run_overflow:
  assumes "''stdout.txt'' \<notin> set (denied w)"
  shows "simulate (load_tables sample_db) recording ''Au'' (PInt beyond_double) s c w =
     (Inl OverflowError,
      w\<lparr>stdout := FileObj (next_obj w) ''stdout.txt'',
        files := (files w)(''stdout.txt'' \<mapsto> []), next_obj := Suc (next_obj w),
        trace := trace w @ [(FileObj (next_obj w) ''stdout.txt'', Lammps, Inr 0)]\<rparr>)"
  unfolding simulate_def
  using assms by (simp add: action_defs sample_lattice_parameter setup_text_def ebind_def
      beyond_double_overflows recording_def)

lemma after_first_call_fields:
  assumes "0 \<le> n" and "n < 10"
  shows "denied (after_first_call n) = []"
    and "files (after_first_call n) ''initial.data'' = Some (sample_text n (sample_lattice False))"
  using assms by (simp_all add: after_first_call_def sample_run_recording console_world_fields)

section \<open>The claims\<close>

text \<open>
  In the theorems below a run of \<open>simulate\<close> is an equation
  \<open>simulate tb X element temperature size_arg crystallize w = (r, w')\<close>: the tables \<open>tb\<close>,
  the libraries \<open>X\<close> and the world \<open>w\<close> before the call are arbitrary, \<open>r\<close> is the returned
  view or the exception that leaves the function, and \<open>w'\<close> is the world after the call.
  The configuration the call generates is the text it hands to \<open>commands_string\<close>, an
  element of \<open>submitted (new_trace w w')\<close>.
\<close>

text \<open>
  C1.  For an element present in the lookup tables, \<open>simulate\<close> takes as lattice parameter
  \<open>LJ_PARAMS[element]['cutoff'] * 0.8\<close> when \<open>crystallize\<close> is true and
  \<open>CRYSTAL_STRUCTURE[element]['lattice_param']\<close> when it is false, and embeds it in the
  configuration: when the temperature and the size can be coerced and formatted, the
  f-string is built, with the fields of the temperature, the size and the tabulated values,
  and the selected value stands in the lattice field of its two \<open>lattice\<close> lines.  No other
  text is ever submitted; the text is submitted as soon as \<open>stdout.txt\<close> can be opened and
  the engine can be created, and so by every call that returns.
\<close>

theorem crystallize_selects_lattice_parameter:
  assumes "LJ_PARAMS tb element = Some lj" and "ATOMIC_MASS tb element = Some m"
    and "CRYSTAL_STRUCTURE tb element = Some cs"
    and "py_float temperature = Inr x" and "py_int size_arg = Inr n" and "int_str n = Inr sz"
    and "simulate tb X element temperature size_arg crystallize w = (r, w')"
  shows "\<exists>lp cfg.
    lp = (if crystallize then fmul (cutoff lj) (float_lit 8 1) else lattice_param cs) \<and>
    lattice_parameter tb element crystallize = Inr lp \<and>
    setup_text tb element temperature size_arg lp = Inr cfg \<and>
    cfg = fstring (setup_lines (float_str (fmul x (Finite 10))) sz (symmetry cs)
      (float_str lp) (float_str (cutoff lj)) (float_str (epsilon lj)) (float_str (sigma lj))
      (float_str m)) \<and>
    contains_line cfg (''    lattice '' @ symmetry cs @ '' '' @ float_str lp) \<and>
    contains_line cfg (''    lattice '' @ symmetry cs @ '' '' @ float_str lp @
      '' orient x 1 0 0 orient y 0 1 0 orient z 0 0 1'') \<and>
    set (submitted (new_trace w w')) \<subseteq> {cfg} \<and>
    ((\<exists>v. r = Inr v) \<longrightarrow> submitted (new_trace w w') = [cfg]) \<and>
    (''stdout.txt'' \<notin> set (denied w) \<and>
     (\<exists>l. fst (X Lammps ((files w)(''stdout.txt'' \<mapsto> []), xstate w)) = Inr l) \<longrightarrow>
     submitted (new_trace w w') = [cfg])"
proof -
  from assms obtain lp cfg where c:
    "lp = (if crystallize then fmul (cutoff lj) (float_lit 8 1) else lattice_param cs)"
    "lattice_parameter tb element crystallize = Inr lp"
    "setup_text tb element temperature size_arg lp = Inr cfg"
    "cfg = fstring (setup_lines (float_str (fmul x (Finite 10))) sz (symmetry cs)
       (float_str lp) (float_str (cutoff lj)) (float_str (epsilon lj)) (float_str (sigma lj))
       (float_str m))"
    "set (submitted (new_trace w w')) \<subseteq> {cfg}"
    "(\<exists>v. r = Inr v) \<longrightarrow> submitted (new_trace w w') = [cfg]"
    by (rule configuration_of_valid_call)
  have l1: "contains_line cfg (''    lattice '' @ symmetry cs @ '' '' @ float_str lp)"
    unfolding c(4) by (rule setup_lines_contain(3))
  have l2: "contains_line cfg (''    lattice '' @ symmetry cs @ '' '' @ float_str lp @
      '' orient x 1 0 0 orient y 0 1 0 orient z 0 0 1'')"
    unfolding c(4) by (rule setup_lines_contain(4))
  have st: "''stdout.txt'' \<notin> set (denied w) \<and>
     (\<exists>l. fst (X Lammps ((files w)(''stdout.txt'' \<mapsto> []), xstate w)) = Inr l) \<longrightarrow>
     submitted (new_trace w w') = [cfg]"
    using started_submits [OF c(2) c(3) _ _ assms(7)] by blast
  from c(1) c(2) c(3) c(4) l1 l2 c(5) c(6) st show ?thesis
    by (intro exI [of _ lp] exI [of _ cfg] conjI)
qed

theorem crystallize_selects_lattice_parameter_witness:
  "submitted (new_trace console_world
     (snd (simulate (load_tables sample_db) obliging ''Au'' (PFloat (Finite 300)) (PInt 3) True
        console_world))) = [sample_text 3 (sample_lattice True)] \<and>
   contains_line (sample_text 3 (sample_lattice True)) ''    lattice fcc 8.0'' \<and>
   submitted (new_trace console_world
     (snd (simulate (load_tables sample_db) obliging ''Au'' (PFloat (Finite 300)) (PInt 3) False
        console_world))) = [sample_text 3 (sample_lattice False)] \<and>
   contains_line (sample_text 3 (sample_lattice False)) ''    lattice fcc 4.078'' \<and>
   sample_lattice True = fmul (float_lit 10 0) (float_lit 8 1) \<and>
   sample_lattice False = float_lit 4078 3"
proof -
  have pf: "py_float (PFloat (Finite 300)) = Inr (Finite 300)" and pi: "py_int (PInt 3) = Inr 3"
    and ps: "int_str 3 = Inr [digit 3]"
    by (simp_all add: py_float_def py_int_def int_str_digit)
  have r: "fst (simulate (load_tables sample_db) obliging ''Au'' (PFloat (Finite 300)) (PInt 3) c
      console_world) = Inr 0" for c
    by (simp add: sample_run_obliging console_world_fields)
  note inst = crystallize_selects_lattice_parameter [where X = obliging and w = console_world,
      OF sample_entries pf pi ps surjective_pairing]
  from inst [of True] inst [of False] r [of True] r [of False] show ?thesis
    by (auto simp: sample_text_def sample_lattice_def sample_strings)
qed

text \<open>
  C2.  For a valid invocation (the element is in the tables, \<open>float(temperature)\<close> is \<open>x\<close>
  and \<open>int(size)\<close> is \<open>n\<close>) the f-string is built, and its text has the line
  \<open>variable T equal\<close> followed by the float \<open>x * 10\<close>, the variable that the \<open>velocity\<close> line
  (initial velocity distribution) and the \<open>fix ... nvt\<close> line (thermostat target) refer to
  as \<open>$T\<close>.  Nothing else is ever submitted, and a call that returns has submitted
  exactly this text.  The one case apart is an \<open>int(size)\<close> of more than 4300 digits, which
  cannot be formatted: then there is no text, nothing is submitted and the call does not
  return.
\<close>

theorem temperature_scaled_by_ten:
  assumes "LJ_PARAMS tb element = Some lj" and "ATOMIC_MASS tb element = Some m"
    and "CRYSTAL_STRUCTURE tb element = Some cs"
    and "py_float temperature = Inr x" and "py_int size_arg = Inr n"
    and "simulate tb X element temperature size_arg crystallize w = (r, w')"
  shows "(int_str n = Inl ValueError \<and> submitted (new_trace w w') = [] \<and> (\<forall>v. r \<noteq> Inr v)) \<or>
    (\<exists>lp cfg.
      lattice_parameter tb element crystallize = Inr lp \<and>
      setup_text tb element temperature size_arg lp = Inr cfg \<and>
      contains_line cfg (''    variable T equal '' @ float_str (fmul x (Finite 10))) \<and>
      contains_line cfg ''    velocity all create $T 90909 rot yes mom yes dist gaussian'' \<and>
      contains_line cfg ''    fix mynvt all nvt temp $T $T $(dt*1000)'' \<and>
      set (submitted (new_trace w w')) \<subseteq> {cfg} \<and>
      ((\<exists>v. r = Inr v) \<longrightarrow> submitted (new_trace w w') = [cfg]))"
proof (cases "int_str n")
  case (Inl k)
  then have k: "int_str n = Inl ValueError"
    using int_str_error by blast
  have "lattice_parameter tb element crystallize =
      Inr (if crystallize then fmul (cutoff lj) (float_lit 8 1) else lattice_param cs)"
    using assms(1,3) by (rule lattice_parameter_present)
  moreover have "setup_text tb element temperature size_arg
      (if crystallize then fmul (cutoff lj) (float_lit 8 1) else lattice_param cs) =
      Inl ValueError"
    using assms(4,5) k by (rule setup_text_unprintable)
  ultimately have "submitted (new_trace w w') = [] \<and> (\<forall>v. r \<noteq> Inr v)"
    using assms(6) by (rule no_text_no_submission)
  with k show ?thesis
    by simp
next
  case (Inr sz)
  with assms obtain lp cfg where c:
    "lp = (if crystallize then fmul (cutoff lj) (float_lit 8 1) else lattice_param cs)"
    "lattice_parameter tb element crystallize = Inr lp"
    "setup_text tb element temperature size_arg lp = Inr cfg"
    "cfg = fstring (setup_lines (float_str (fmul x (Finite 10))) sz (symmetry cs)
       (float_str lp) (float_str (cutoff lj)) (float_str (epsilon lj)) (float_str (sigma lj))
       (float_str m))"
    "set (submitted (new_trace w w')) \<subseteq> {cfg}"
    "(\<exists>v. r = Inr v) \<longrightarrow> submitted (new_trace w w') = [cfg]"
    by (elim configuration_of_valid_call)
  have "contains_line cfg (''    variable T equal '' @ float_str (fmul x (Finite 10)))"
    and "contains_line cfg ''    velocity all create $T 90909 rot yes mom yes dist gaussian''"
    and "contains_line cfg ''    fix mynvt all nvt temp $T $T $(dt*1000)''"
    unfolding c(4) by (rule setup_lines_contain)+
  with c(2,3,5,6) show ?thesis
    by blast
qed

theorem temperature_scaled_by_ten_witness:
  "contains_line (sample_text 3 (sample_lattice False)) ''    variable T equal 3000.0'' \<and>
   contains_line (sample_text 3 (sample_lattice False))
     ''    velocity all create $T 90909 rot yes mom yes dist gaussian'' \<and>
   contains_line (sample_text 3 (sample_lattice False))
     ''    fix mynvt all nvt temp $T $T $(dt*1000)'' \<and>
   submitted (new_trace notebook_world
     (snd (simulate (load_tables sample_db) obliging ''Au'' (PFloat (Finite 300)) (PInt 3) False
        notebook_world))) = [sample_text 3 (sample_lattice False)]"
proof -
  have "py_float (PFloat (Finite 300)) = Inr (Finite 300)" and "py_int (PInt 3) = Inr 3"
    by (simp_all add: py_float_def py_int_def)
  from temperature_scaled_by_ten [where X = obliging and crystallize = False
      and w = notebook_world, OF sample_entries this surjective_pairing]
  show ?thesis
    by (auto simp: sample_lattice_parameter sample_setup_text sample_strings
        sample_submitted notebook_world_fields int_str_digit)
qed

text \<open>
  C3.  When the element symbol is a key of none of the lookup tables, \<open>simulate\<close> raises
  KeyError for that symbol, whether \<open>crystallize\<close> is true or false.  The world is returned
  as it was: nothing has been handed to the engine, no file has been opened and
  \<open>sys.stdout\<close> has not been touched; no default value is put in the place of the entry.
\<close>

theorem unknown_element_KeyError:
  assumes "element \<notin> dom (LJ_PARAMS tb)" and "element \<notin> dom (ATOMIC_MASS tb)"
    and "element \<notin> dom (CRYSTAL_STRUCTURE tb)"
  shows "simulate tb X element temperature size_arg True w = (Inl (KeyError element), w) \<and>
         simulate tb X element temperature size_arg False w = (Inl (KeyError element), w)"
proof -
  from assms have "lattice_parameter tb element c = Inl (KeyError element)" for c
    by (auto simp: lattice_parameter_def ebind_def getitem_def dom_def)
  then show ?thesis
    by (simp add: simulate_phases sbind_def lift_def)
qed

theorem unknown_element_KeyError_witness:
  "simulate (load_tables sample_db) obliging ''Xx'' (PFloat (Finite 300)) (PInt 3) True console_world
     = (Inl (KeyError ''Xx''), console_world) \<and>
   simulate (load_tables sample_db) obliging ''Xx'' (PFloat (Finite 300)) (PInt 3) False console_world
     = (Inl (KeyError ''Xx''), console_world)"
  by (rule unknown_element_KeyError) (simp_all add: load_tables_def sample_db_def dom_def)

text \<open>
  C4, as the code has it.  Every library call that \<open>simulate\<close> makes is made while
  \<open>sys.stdout\<close> is the file object newly opened on \<open>stdout.txt\<close>, and a call that returns
  normally has made such calls and has put back the stream that \<open>sys.stdout\<close> held before.
  The statement is silent on the exits by an exception.
\<close>

theorem stdout_redirected_then_restored:
  assumes "simulate tb X element temperature size_arg crystallize w = (r, w')"
  shows "(\<forall>(out, c, res) \<in> set (new_trace w w'). out = FileObj (next_obj w) ''stdout.txt'') \<and>
    ((\<exists>v. r = Inr v) \<longrightarrow> stdout w' = stdout w \<and> new_trace w w' \<noteq> [])"
proof -
  from assms obtain new where n: "trace w' = trace w @ new"
    "\<forall>(out, cl, res) \<in> set new. out = FileObj (next_obj w) ''stdout.txt''"
    "\<forall>v. r = Inr v \<longrightarrow> accepted new \<noteq> [] \<and> stdout w' = stdout w"
    by (rule simulate_log)
  have "accepted [] = []"
    by (simp add: accepted_def)
  with n show ?thesis
    by (auto simp: new_trace_append)
qed

theorem stdout_redirected_then_restored_witness:
  "stdout (snd (simulate (load_tables sample_db) obliging ''Au'' (PFloat (Finite 300)) (PInt 3)
      False notebook_world)) = FileObj 0 ''stdout.txt'' \<and>
   stdout notebook_world = FileObj 0 ''stdout.txt'' \<and>
   list_all (\<lambda>(out, c, res). out = FileObj 1 ''stdout.txt'')
     (new_trace notebook_world (snd (simulate (load_tables sample_db) obliging ''Au''
        (PFloat (Finite 300)) (PInt 3) False notebook_world))) \<and>
   length (new_trace notebook_world (snd (simulate (load_tables sample_db) obliging ''Au''
        (PFloat (Finite 300)) (PInt 3) False notebook_world))) = 11"
proof -
  have r: "fst (simulate (load_tables sample_db) obliging ''Au'' (PFloat (Finite 300)) (PInt 3)
      False notebook_world) = Inr 0"
    by (simp add: sample_run_obliging notebook_world_fields)
  have l: "length (new_trace notebook_world (snd (simulate (load_tables sample_db) obliging ''Au''
        (PFloat (Finite 300)) (PInt 3) False notebook_world))) = 11"
    by (simp add: sample_run_obliging notebook_world_fields new_trace_def)
  from stdout_redirected_then_restored [where tb = "load_tables sample_db" and X = obliging
      and element = "''Au''" and temperature = "PFloat (Finite 300)" and size_arg = "PInt 3"
      and crystallize = False and w = notebook_world, OF surjective_pairing] r l
  show ?thesis
    by (simp add: notebook_world_fields list_all_iff)
qed

text \<open>
  The claim C4 as stated also promises the restoration when an engine failure propagates.
  With an engine whose \<open>run\<close> raises, the exception leaves \<open>simulate\<close> and \<open>sys.stdout\<close>,
  the console before the call, is still the file object on \<open>stdout.txt\<close> after it: the
  assignment that restores it is the last statement of the body, and there is no
  \<open>try\<close>/\<open>finally\<close>.
\<close>

theorem stdout_not_restored_counterexample:
  "fst (simulate (load_tables sample_db) lost_atoms ''Au'' (PFloat (Finite 300)) (PInt 3) False
      console_world) = Inl (ExternalError ''ERROR: Lost atoms'') \<and>
   stdout console_world = Console \<and>
   stdout (snd (simulate (load_tables sample_db) lost_atoms ''Au'' (PFloat (Finite 300)) (PInt 3)
      False console_world)) = FileObj 0 ''stdout.txt''"
  by (simp add: sample_run_lost_atoms console_world_fields)

text \<open>
  C5, as the code has it.  The commands handed to \<open>command\<close> during a call are exactly
  \<open>run 10000\<close>, once, when \<open>commands_string\<close> has returned for the configuration, and none
  otherwise; so every call that returns normally has issued exactly one run command, of
  10000 steps, whatever its arguments.
\<close>

theorem one_run_command_when_accepted:
  assumes "simulate tb X element temperature size_arg crystallize w = (r, w')"
  shows "run_commands (new_trace w w') =
      (if accepted (new_trace w w') = [] then [] else [''run 10000'']) \<and>
    ((\<exists>v. r = Inr v) \<longrightarrow> run_commands (new_trace w w') = [''run 10000''])"
proof -
  from assms obtain new where n: "trace w' = trace w @ new"
    "run_commands new = (if accepted new = [] then [] else [''run 10000''])"
    "\<forall>v. r = Inr v \<longrightarrow> accepted new \<noteq> [] \<and> stdout w' = stdout w"
    by (rule simulate_log)
  then show ?thesis
    by (auto simp: new_trace_append)
qed

theorem one_run_command_when_accepted_witness:
  "run_commands (new_trace console_world
     (snd (simulate (load_tables sample_db) obliging ''Au'' (PFloat (Finite 300)) (PInt 3) True
        console_world))) = [''run 10000''] \<and>
   run_commands (new_trace console_world
     (snd (simulate (load_tables sample_db) lost_atoms ''Au'' (PFloat (Finite 300)) (PInt 5) False
        console_world))) = [''run 10000'']"
proof -
  have a1: "accepted (new_trace console_world
     (snd (simulate (load_tables sample_db) obliging ''Au'' (PFloat (Finite 300)) (PInt 3) True
        console_world))) \<noteq> []"
    by (simp add: sample_run_obliging console_world_fields new_trace_def accepted_def)
  have a2: "accepted (new_trace console_world
     (snd (simulate (load_tables sample_db) lost_atoms ''Au'' (PFloat (Finite 300)) (PInt 5) False
        console_world))) \<noteq> []"
    by (simp add: sample_run_lost_atoms console_world_fields new_trace_def accepted_def)
  from one_run_command_when_accepted [where tb = "load_tables sample_db" and X = obliging
      and element = "''Au''" and temperature = "PFloat (Finite 300)" and size_arg = "PInt 3"
      and crystallize = True and w = console_world, OF surjective_pairing]
    one_run_command_when_accepted [where tb = "load_tables sample_db" and X = lost_atoms
      and element = "''Au''" and temperature = "PFloat (Finite 300)" and size_arg = "PInt 5"
      and crystallize = False and w = console_world, OF surjective_pairing] a1 a2
  show ?thesis
    by simp
qed

text \<open>
  The claim C5 as stated holds for every invocation regardless of its arguments.  A call
  with an element that is not in the tables raises KeyError and issues no run command.
\<close>

theorem no_run_command_counterexample:
  "fst (simulate (load_tables sample_db) obliging ''Xx'' (PFloat (Finite 300)) (PInt 3) False
      console_world) = Inl (KeyError ''Xx'') \<and>
   run_commands (new_trace console_world
     (snd (simulate (load_tables sample_db) obliging ''Xx'' (PFloat (Finite 300)) (PInt 3) False
        console_world))) = []"
  by (simp add: sample_run_unknown new_trace_def run_commands_def)

text \<open>
  C6.  For an element present in the tables, when the temperature and the size can be
  coerced and formatted, the f-string is built, and its text has the line
  \<open>pair_style lj/cut\<close> with the tabulated cutoff, the line \<open>pair_coeff * *\<close> with the
  tabulated epsilon and sigma, the line \<open>mass 1\<close> with the tabulated atomic mass, and the
  two \<open>lattice\<close> lines with the symmetry name of \<open>CRYSTAL_STRUCTURE\<close>.  No other text is
  ever submitted; the text is submitted as soon as \<open>stdout.txt\<close> can be opened and the
  engine can be created, and so by every call that returns.
\<close>

theorem configuration_embeds_table_values:
  assumes "LJ_PARAMS tb element = Some lj" and "ATOMIC_MASS tb element = Some m"
    and "CRYSTAL_STRUCTURE tb element = Some cs"
    and "py_float temperature = Inr x" and "py_int size_arg = Inr n" and "int_str n = Inr sz"
    and "simulate tb X element temperature size_arg crystallize w = (r, w')"
  shows "\<exists>lp cfg.
    lattice_parameter tb element crystallize = Inr lp \<and>
    setup_text tb element temperature size_arg lp = Inr cfg \<and>
    contains_line cfg (''    pair_style lj/cut '' @ float_str (cutoff lj)) \<and>
    contains_line cfg
      (''    pair_coeff * * '' @ float_str (epsilon lj) @ '' '' @ float_str (sigma lj)) \<and>
    contains_line cfg (''    mass 1 '' @ float_str m) \<and>
    contains_line cfg (''    lattice '' @ symmetry cs @ '' '' @ float_str lp) \<and>
    contains_line cfg (''    lattice '' @ symmetry cs @ '' '' @ float_str lp @
      '' orient x 1 0 0 orient y 0 1 0 orient z 0 0 1'') \<and>
    set (submitted (new_trace w w')) \<subseteq> {cfg} \<and>
    ((\<exists>v. r = Inr v) \<longrightarrow> submitted (new_trace w w') = [cfg]) \<and>
    (''stdout.txt'' \<notin> set (denied w) \<and>
     (\<exists>l. fst (X Lammps ((files w)(''stdout.txt'' \<mapsto> []), xstate w)) = Inr l) \<longrightarrow>
     submitted (new_trace w w') = [cfg])"
proof -
  from assms obtain lp cfg where c:
    "lp = (if crystallize then fmul (cutoff lj) (float_lit 8 1) else lattice_param cs)"
    "lattice_parameter tb element crystallize = Inr lp"
    "setup_text tb element temperature size_arg lp = Inr cfg"
    "cfg = fstring (setup_lines (float_str (fmul x (Finite 10))) sz (symmetry cs)
       (float_str lp) (float_str (cutoff lj)) (float_str (epsilon lj)) (float_str (sigma lj))
       (float_str m))"
    "set (submitted (new_trace w w')) \<subseteq> {cfg}"
    "(\<exists>v. r = Inr v) \<longrightarrow> submitted (new_trace w w') = [cfg]"
    by (rule configuration_of_valid_call)
  have l1: "contains_line cfg (''    pair_style lj/cut '' @ float_str (cutoff lj))"
    unfolding c(4) by (rule setup_lines_contain(5))
  have l2: "contains_line cfg
      (''    pair_coeff * * '' @ float_str (epsilon lj) @ '' '' @ float_str (sigma lj))"
    unfolding c(4) by (rule setup_lines_contain(6))
  have l3: "contains_line cfg (''    mass 1 '' @ float_str m)"
    unfolding c(4) by (rule setup_lines_contain(7))
  have l4: "contains_line cfg (''    lattice '' @ symmetry cs @ '' '' @ float_str lp)"
    unfolding c(4) by (rule setup_lines_contain(3))
  have l5: "contains_line cfg (''    lattice '' @ symmetry cs @ '' '' @ float_str lp @
      '' orient x 1 0 0 orient y 0 1 0 orient z 0 0 1'')"
    unfolding c(4) by (rule setup_lines_contain(4))
  have st: "''stdout.txt'' \<notin> set (denied w) \<and>
     (\<exists>l. fst (X Lammps ((files w)(''stdout.txt'' \<mapsto> []), xstate w)) = Inr l) \<longrightarrow>
     submitted (new_trace w w') = [cfg]"
    using started_submits [OF c(2) c(3) _ _ assms(7)] by blast
  from c(2) c(3) l1 l2 l3 l4 l5 c(5) c(6) st show ?thesis
    by (intro exI [of _ lp] exI [of _ cfg] conjI)
qed

theorem configuration_embeds_table_values_witness:
  "submitted (new_trace console_world
     (snd (simulate (load_tables sample_db) obliging ''Au'' (PFloat (Finite 300)) (PInt 3) False
        console_world))) = [sample_text 3 (sample_lattice False)] \<and>
   contains_line (sample_text 3 (sample_lattice False)) ''    pair_style lj/cut 10.0'' \<and>
   contains_line (sample_text 3 (sample_lattice False)) ''    pair_coeff * * 0.2294 2.646'' \<and>
   contains_line (sample_text 3 (sample_lattice False)) ''    mass 1 196.97'' \<and>
   contains_line (sample_text 3 (sample_lattice False)) ''    lattice fcc 4.078'' \<and>
   contains_line (sample_text 3 (sample_lattice False))
     ''    lattice fcc 4.078 orient x 1 0 0 orient y 0 1 0 orient z 0 0 1''"
proof -
  have pf: "py_float (PFloat (Finite 300)) = Inr (Finite 300)" and pi: "py_int (PInt 3) = Inr 3"
    and ps: "int_str 3 = Inr [digit 3]"
    by (simp_all add: py_float_def py_int_def int_str_digit)
  have r: "fst (simulate (load_tables sample_db) obliging ''Au'' (PFloat (Finite 300)) (PInt 3)
      False console_world) = Inr 0"
    by (simp add: sample_run_obliging console_world_fields)
  from configuration_embeds_table_values [where X = obliging and crystallize = False
      and w = console_world, OF sample_entries pf pi ps surjective_pairing] r
  show ?thesis
    by (auto simp: sample_lattice_parameter sample_setup_text sample_lattice_def sample_strings)
qed

text \<open>
  C7, as the code has it.  For a second call that returns normally the four fixed-name
  files are overwritten: with libraries that replace the files they write
  (\<open>overwriting\<close>), two returning runs of the same call, from any two worlds, return the
  same view and leave the same contents in \<open>stdout.txt\<close>, \<open>initial.data\<close>, \<open>initial.gro\<close> and
  \<open>atom.lammpstrj\<close>; so what an earlier call left in them has no part in their contents,
  which the arguments of the call determine.  Whatever the libraries are, a call that
  fails its lattice-parameter lookup changes nothing, and a call that passes it and can
  open \<open>stdout.txt\<close> truncates that file (mode \<open>'w'\<close>): its outcome and the world after it
  are the same whatever the file held before.  The configuration it submits tells the
  engine to write \<open>initial.data\<close> and \<open>atom.lammpstrj\<close>, and every path it hands to the
  libraries is one of \<open>initial.data\<close>, \<open>initial.gro\<close> and \<open>atom.lammpstrj\<close>.
\<close>

theorem fixed_files_overwritten:
  assumes "simulate tb X element temperature size_arg crystallize w = (r, w')"
  shows "(overwriting X \<longrightarrow>
      (\<forall>v u w2 w2'. r = Inr v \<and>
         simulate tb X element temperature size_arg crystallize w2 = (Inr u, w2') \<longrightarrow>
         u = v \<and>
         (\<forall>p \<in> {''stdout.txt'', ''initial.data'', ''initial.gro'', ''atom.lammpstrj''}.
            files w2' p = files w' p))) \<and>
    (\<forall>k. lattice_parameter tb element crystallize = Inl k \<longrightarrow> w' = w) \<and>
    ((\<exists>lp. lattice_parameter tb element crystallize = Inr lp) \<and>
       ''stdout.txt'' \<notin> set (denied w) \<longrightarrow>
     (\<forall>old. simulate tb X element temperature size_arg crystallize
        (w\<lparr>files := (files w)(''stdout.txt'' := old)\<rparr>) = (r, w'))) \<and>
    (\<forall>cfg \<in> set (submitted (new_trace w w')).
       contains_line cfg ''    write_data initial.data'' \<and>
       contains_line cfg ''    dump mydump all atom ${writefreq} atom.lammpstrj'') \<and>
    (\<forall>(out, c, res) \<in> set (new_trace w w'). fixed_names c)"
proof -
  have 0: "overwriting X \<longrightarrow>
      (\<forall>v u w2 w2'. r = Inr v \<and>
         simulate tb X element temperature size_arg crystallize w2 = (Inr u, w2') \<longrightarrow>
         u = v \<and>
         (\<forall>p \<in> {''stdout.txt'', ''initial.data'', ''initial.gro'', ''atom.lammpstrj''}.
            files w2' p = files w' p))"
  proof (intro impI allI, elim conjE)
    fix v u w2 w2'
    assume o: "overwriting X" and "r = Inr v"
      and 2: "simulate tb X element temperature size_arg crystallize w2 = (Inr u, w2')"
    with assms have 1: "simulate tb X element temperature size_arg crystallize w = (Inr v, w')"
      by simp
    from o 2 1 show "u = v \<and>
         (\<forall>p \<in> {''stdout.txt'', ''initial.data'', ''initial.gro'', ''atom.lammpstrj''}.
            files w2' p = files w' p)"
      by (rule simulate_alike)
  qed
  have 1: "\<forall>k. lattice_parameter tb element crystallize = Inl k \<longrightarrow> w' = w"
    using assms by (auto simp: simulate_phases sbind_def lift_def)
  have 2: "(\<exists>lp. lattice_parameter tb element crystallize = Inr lp) \<and>
       ''stdout.txt'' \<notin> set (denied w) \<longrightarrow>
     (\<forall>old. simulate tb X element temperature size_arg crystallize
        (w\<lparr>files := (files w)(''stdout.txt'' := old)\<rparr>) = (r, w'))"
    using assms by (auto simp: earlier_log_discarded)
  have 3: "\<forall>cfg \<in> set (submitted (new_trace w w')).
       contains_line cfg ''    write_data initial.data'' \<and>
       contains_line cfg ''    dump mydump all atom ${writefreq} atom.lammpstrj''"
  proof
    fix cfg
    assume "cfg \<in> set (submitted (new_trace w w'))"
    with assms obtain lp where "setup_text tb element temperature size_arg lp = Inr cfg"
      by (rule submitted_text)
    then obtain a b c d e f g h where cfg: "cfg = fstring (setup_lines a b c d e f g h)"
      by (elim setup_text_fields)
    show "contains_line cfg ''    write_data initial.data'' \<and>
       contains_line cfg ''    dump mydump all atom ${writefreq} atom.lammpstrj''"
      unfolding cfg by (intro conjI setup_lines_contain)
  qed
  have 4: "\<forall>(out, c, res) \<in> set (new_trace w w'). fixed_names c"
    using assms by (rule simulate_fixed_names)
  from 0 1 2 3 4 show ?thesis
    by (intro conjI)
qed

theorem fixed_files_overwritten_witness:
  "overwriting recording \<and>
   files (after_first_call 3) ''initial.data'' = Some (sample_text 3 (sample_lattice False)) \<and>
   files (snd (simulate (load_tables sample_db) recording ''Au'' (PFloat (Finite 300)) (PInt 4) False
     (after_first_call 3))) ''initial.data'' = Some (sample_text 4 (sample_lattice False)) \<and>
   files (snd (simulate (load_tables sample_db) recording ''Au'' (PFloat (Finite 300)) (PInt 4) False
     notebook_world)) ''stdout.txt'' =
   files (snd (simulate (load_tables sample_db) recording ''Au'' (PFloat (Finite 300)) (PInt 4) False
     (after_first_call 3))) ''stdout.txt'' \<and>
   files (snd (simulate (load_tables sample_db) recording ''Au'' (PFloat (Finite 300)) (PInt 4) False
     notebook_world)) ''initial.data'' =
   files (snd (simulate (load_tables sample_db) recording ''Au'' (PFloat (Finite 300)) (PInt 4) False
     (after_first_call 3))) ''initial.data'' \<and>
   files (snd (simulate (load_tables sample_db) recording ''Au'' (PFloat (Finite 300)) (PInt 4) False
     notebook_world)) ''initial.gro'' =
   files (snd (simulate (load_tables sample_db) recording ''Au'' (PFloat (Finite 300)) (PInt 4) False
     (after_first_call 3))) ''initial.gro'' \<and>
   files (snd (simulate (load_tables sample_db) recording ''Au'' (PFloat (Finite 300)) (PInt 4) False
     notebook_world)) ''atom.lammpstrj'' =
   files (snd (simulate (load_tables sample_db) recording ''Au'' (PFloat (Finite 300)) (PInt 4) False
     (after_first_call 3))) ''atom.lammpstrj''"
proof -
  have d: "''stdout.txt'' \<notin> set (denied (after_first_call 3))"
    by (simp add: after_first_call_fields)
  have r1: "fst (simulate (load_tables sample_db) recording ''Au'' (PFloat (Finite 300)) (PInt 4)
      False (after_first_call 3)) = Inr 0"
    using d by (simp add: sample_run_recording)
  have r2: "simulate (load_tables sample_db) recording ''Au'' (PFloat (Finite 300)) (PInt 4)
      False notebook_world =
      (Inr 0, snd (simulate (load_tables sample_db) recording ''Au'' (PFloat (Finite 300)) (PInt 4)
      False notebook_world))"
    by (simp add: sample_run_recording notebook_world_fields)
  have i: "files (snd (simulate (load_tables sample_db) recording ''Au'' (PFloat (Finite 300))
      (PInt 4) False (after_first_call 3))) ''initial.data'' =
      Some (sample_text 4 (sample_lattice False))"
    using d by (simp add: sample_run_recording)
  note inst = fixed_files_overwritten [where tb = "load_tables sample_db" and X = recording
      and element = "''Au''" and temperature = "PFloat (Finite 300)" and size_arg = "PInt 4"
      and crystallize = False and w = "after_first_call 3", OF surjective_pairing,
      THEN conjunct1, rule_format, OF recording_overwriting, OF conjI, OF r1 r2]
  from inst show ?thesis
    by (simp add: recording_overwriting after_first_call_fields i)
qed

text \<open>
  The claim C7 as stated holds for every pair of successive invocations.  With the
  libraries \<open>recording\<close>, which overwrite, a first call for gold followed by a second call
  that raises leaves in \<open>initial.data\<close> what the first call wrote: the same second call after
  two different first calls (size 3 and size 4) leaves two different contents.  This is so
  for a second call that fails its lookup (an unknown element), and for one that passes it
  and raises later (a temperature that no float holds).
\<close>

theorem files_left_by_first_call_counterexample:
  "fst (simulate (load_tables sample_db) recording ''Xx'' (PFloat (Finite 300)) (PInt 3) False
     (after_first_call 3)) = Inl (KeyError ''Xx'') \<and>
   files (snd (simulate (load_tables sample_db) recording ''Xx'' (PFloat (Finite 300)) (PInt 3) False
     (after_first_call 3))) ''initial.data'' = Some (sample_text 3 (sample_lattice False)) \<and>
   files (snd (simulate (load_tables sample_db) recording ''Xx'' (PFloat (Finite 300)) (PInt 3) False
     (after_first_call 4))) ''initial.data'' = Some (sample_text 4 (sample_lattice False)) \<and>
   fst (simulate (load_tables sample_db) recording ''Au'' (PInt beyond_double) (PInt 3) False
     (after_first_call 3)) = Inl OverflowError \<and>
   files (snd (simulate (load_tables sample_db) recording ''Au'' (PInt beyond_double) (PInt 3) False
     (after_first_call 3))) ''initial.data'' = Some (sample_text 3 (sample_lattice False)) \<and>
   files (snd (simulate (load_tables sample_db) recording ''Au'' (PInt beyond_double) (PInt 3) False
     (after_first_call 4))) ''initial.data'' = Some (sample_text 4 (sample_lattice False)) \<and>
   sample_text 3 (sample_lattice False) \<noteq> sample_text 4 (sample_lattice False)"
proof -
  have "sample_text 3 (sample_lattice False) \<noteq> sample_text 4 (sample_lattice False)"
    by (simp add: sample_text_def fstring_def setup_lines_def sample_digits)
  then show ?thesis
    by (simp add: sample_run_unknown sample_run_overflow after_first_call_fields)
qed

text \<open>
  C8.  The three lookup tables are mutually consistent: an element key present in any one of
  \<open>LJ_PARAMS\<close>, \<open>ATOMIC_MASS\<close> and \<open>CRYSTAL_STRUCTURE\<close> is present in all three.  The
  tables are those of the specification's data model (\<open>load_tables\<close>), the module that
  defines them being absent.
\<close>

theorem tables_consistent:
  assumes "k \<in> dom (LJ_PARAMS (load_tables db)) \<or> k \<in> dom (ATOMIC_MASS (load_tables db)) \<or>
    k \<in> dom (CRYSTAL_STRUCTURE (load_tables db))"
  shows "k \<in> dom (LJ_PARAMS (load_tables db)) \<and> k \<in> dom (ATOMIC_MASS (load_tables db)) \<and>
    k \<in> dom (CRYSTAL_STRUCTURE (load_tables db))"
  using assms by (auto simp: load_tables_def dom_def)

theorem tables_consistent_witness:
  "''Au'' \<in> dom (LJ_PARAMS (load_tables sample_db)) \<and>
   ''Au'' \<in> dom (ATOMIC_MASS (load_tables sample_db)) \<and>
   ''Au'' \<in> dom (CRYSTAL_STRUCTURE (load_tables sample_db))"
  by (rule tables_consistent) (simp add: load_tables_def sample_db_def dom_def)

text \<open>
  C9.  The assembly of the configuration is deterministic: two calls with equal element,
  temperature, size and flag submit the same text, character for character, whatever the
  worlds they start in and whatever the libraries do; the text has the \<open>velocity\<close> line
  with the fixed seed 90909, and a call submits at most one text.
\<close>

theorem configuration_deterministic:
  assumes "simulate tb X1 element temperature size_arg crystallize w1 = (r1, w1')"
    and "cfg1 \<in> set (submitted (new_trace w1 w1'))"
    and "simulate tb X2 element temperature size_arg crystallize w2 = (r2, w2')"
    and "cfg2 \<in> set (submitted (new_trace w2 w2'))"
  shows "cfg1 = cfg2 \<and>
    contains_line cfg1 ''    velocity all create $T 90909 rot yes mom yes dist gaussian'' \<and>
    length (submitted (new_trace w1 w1')) \<le> 1"
proof -
  from assms(1,2) obtain lp1 where 1: "lattice_parameter tb element crystallize = Inr lp1"
    "setup_text tb element temperature size_arg lp1 = Inr cfg1"
    by (rule submitted_text)
  from assms(3,4) obtain lp2 where 2: "lattice_parameter tb element crystallize = Inr lp2"
    "setup_text tb element temperature size_arg lp2 = Inr cfg2"
    by (rule submitted_text)
  from 1 2 have eq: "cfg1 = cfg2"
    by simp
  from 1(2) obtain a b c d e f g h where "cfg1 = fstring (setup_lines a b c d e f g h)"
    by (elim setup_text_fields)
  then have seed: "contains_line cfg1
      ''    velocity all create $T 90909 rot yes mom yes dist gaussian''"
    by (simp only: setup_lines_contain(8))
  from assms(1) obtain new where "trace w1' = trace w1 @ new" "length (submitted new) \<le> 1"
    by (rule simulate_log)
  then have "length (submitted (new_trace w1 w1')) \<le> 1"
    by (simp add: new_trace_append)
  with eq seed show ?thesis
    by simp
qed

theorem configuration_deterministic_witness:
  "submitted (new_trace console_world
     (snd (simulate (load_tables sample_db) obliging ''Au'' (PFloat (Finite 300)) (PInt 3) False
        console_world))) =
   submitted (new_trace notebook_world
     (snd (simulate (load_tables sample_db) lost_atoms ''Au'' (PFloat (Finite 300)) (PInt 3) False
        notebook_world))) \<and>
   submitted (new_trace console_world
     (snd (simulate (load_tables sample_db) obliging ''Au'' (PFloat (Finite 300)) (PInt 3) False
        console_world))) = [sample_text 3 (sample_lattice False)] \<and>
   contains_line (sample_text 3 (sample_lattice False))
     ''    velocity all create $T 90909 rot yes mom yes dist gaussian''"
proof -
  have s1: "submitted (new_trace console_world
     (snd (simulate (load_tables sample_db) obliging ''Au'' (PFloat (Finite 300)) (PInt 3) False
        console_world))) = [sample_text 3 (sample_lattice False)]"
    by (simp add: sample_submitted console_world_fields)
  have s2: "submitted (new_trace notebook_world
     (snd (simulate (load_tables sample_db) lost_atoms ''Au'' (PFloat (Finite 300)) (PInt 3) False
        notebook_world))) = [sample_text 3 (sample_lattice False)]"
    by (simp add: sample_run_lost_atoms notebook_world_fields new_trace_def submitted_def)
  have m1: "sample_text 3 (sample_lattice False) \<in> set (submitted (new_trace console_world
     (snd (simulate (load_tables sample_db) obliging ''Au'' (PFloat (Finite 300)) (PInt 3) False
        console_world))))"
    by (simp add: s1)
  have m2: "sample_text 3 (sample_lattice False) \<in> set (submitted (new_trace notebook_world
     (snd (simulate (load_tables sample_db) lost_atoms ''Au'' (PFloat (Finite 300)) (PInt 3) False
        notebook_world))))"
    by (simp add: s2)
  from configuration_deterministic [OF surjective_pairing m1 surjective_pairing m2] s1 s2
  show ?thesis
    by simp
qed

text \<open>
  C10, as the code has it.  \<open>simulate\<close> coerces its arguments before it formats them:
  the \<open>variable T\<close> line holds \<open>float(temperature) * 10\<close> and the \<open>variable size\<close> line
  holds \<open>int(size)\<close>.  Whenever the two coercions return and \<open>int(size)\<close> can be formatted,
  the call raises nothing but a failure of the libraries or of opening \<open>stdout.txt\<close>: no
  check of sign or range is made.  \<open>float\<close> returns every float as it is, of any sign, and
  converts every int of magnitude below \<open>2^53\<close> exactly; \<open>int\<close> returns every int as it
  is and truncates a finite float toward zero.  An int is formatted when it has at most
  4300 digits, which the truncation of a finite float of magnitude below \<open>10^4300\<close> has,
  and formatting it raises ValueError otherwise.
\<close>

theorem coercions_without_validation:
  assumes "LJ_PARAMS tb element = Some lj" and "ATOMIC_MASS tb element = Some m"
    and "CRYSTAL_STRUCTURE tb element = Some cs"
    and "py_float temperature = Inr x" and "py_int size_arg = Inr n" and "int_str n = Inr sz"
    and "simulate tb X element temperature size_arg crystallize w = (r, w')"
  shows "(\<exists>lp cfg.
      lattice_parameter tb element crystallize = Inr lp \<and>
      setup_text tb element temperature size_arg lp = Inr cfg \<and>
      contains_line cfg (''    variable T equal '' @ float_str (fmul x (Finite 10))) \<and>
      contains_line cfg (''    variable size equal '' @ sz) \<and>
      set (submitted (new_trace w w')) \<subseteq> {cfg} \<and>
      ((\<exists>v. r = Inr v) \<longrightarrow> submitted (new_trace w w') = [cfg])) \<and>
    (\<forall>k. r = Inl k \<longrightarrow> (\<exists>msg. k = ExternalError msg) \<or> k = OSError ''stdout.txt'') \<and>
    (\<forall>y. py_float (PFloat y) = Inr y) \<and>
    (\<forall>i. \<bar>i\<bar> < 2 ^ 53 \<longrightarrow> py_float (PInt i) = Inr (Finite (of_int i))) \<and>
    (\<forall>i. py_int (PInt i) = Inr i) \<and>
    (\<forall>q. \<exists>k. py_int (PFloat (Finite q)) = Inr k \<and>
       \<bar>of_int k\<bar> \<le> \<bar>q\<bar> \<and> \<bar>q\<bar> < \<bar>of_int k\<bar> + 1 \<and> 0 \<le> of_int k * q \<and>
       (\<bar>q\<bar> < 10 ^ nat max_str_digits \<longrightarrow> (\<exists>field. int_str k = Inr field))) \<and>
    (\<forall>i. int_str i =
       (if \<bar>i\<bar> < 10 ^ nat max_str_digits
        then Inr ((if i < 0 then ''-'' else []) @ digits10 \<bar>i\<bar>)
        else Inl ValueError))"
proof -
  from assms obtain lp cfg where c:
    "lp = (if crystallize then fmul (cutoff lj) (float_lit 8 1) else lattice_param cs)"
    "lattice_parameter tb element crystallize = Inr lp"
    "setup_text tb element temperature size_arg lp = Inr cfg"
    "cfg = fstring (setup_lines (float_str (fmul x (Finite 10))) sz (symmetry cs)
       (float_str lp) (float_str (cutoff lj)) (float_str (epsilon lj)) (float_str (sigma lj))
       (float_str m))"
    "set (submitted (new_trace w w')) \<subseteq> {cfg}"
    "(\<exists>v. r = Inr v) \<longrightarrow> submitted (new_trace w w') = [cfg]"
    by (rule configuration_of_valid_call)
  have "contains_line cfg (''    variable T equal '' @ float_str (fmul x (Finite 10)))"
    and "contains_line cfg (''    variable size equal '' @ sz)"
    unfolding c(4) by (rule setup_lines_contain)+
  with c(2,3,5,6) have 1: "\<exists>lp cfg.
      lattice_parameter tb element crystallize = Inr lp \<and>
      setup_text tb element temperature size_arg lp = Inr cfg \<and>
      contains_line cfg (''    variable T equal '' @ float_str (fmul x (Finite 10))) \<and>
      contains_line cfg (''    variable size equal '' @ sz) \<and>
      set (submitted (new_trace w w')) \<subseteq> {cfg} \<and>
      ((\<exists>v. r = Inr v) \<longrightarrow> submitted (new_trace w w') = [cfg])"
    by blast
  have 2: "\<forall>k. r = Inl k \<longrightarrow> (\<exists>msg. k = ExternalError msg) \<or> k = OSError ''stdout.txt''"
  proof (intro allI impI)
    fix k
    assume "r = Inl k"
    with assms(7) have "simulate tb X element temperature size_arg crystallize w = (Inl k, w')"
      by simp
    from simulate_error [OF this] c(2,3)
    show "(\<exists>msg. k = ExternalError msg) \<or> k = OSError ''stdout.txt''"
      by auto
  qed
  have 3: "\<forall>y. py_float (PFloat y) = Inr y" and 4: "\<forall>i. py_int (PInt i) = Inr i"
    by (simp_all add: py_float_def py_int_def)
  have 5: "\<forall>q. \<exists>k. py_int (PFloat (Finite q)) = Inr k \<and>
       \<bar>of_int k\<bar> \<le> \<bar>q\<bar> \<and> \<bar>q\<bar> < \<bar>of_int k\<bar> + 1 \<and> 0 \<le> of_int k * q \<and>
       (\<bar>q\<bar> < 10 ^ nat max_str_digits \<longrightarrow> (\<exists>field. int_str k = Inr field))"
  proof
    fix q :: rat
    define k where "k = (if 0 \<le> q then \<lfloor>q\<rfloor> else \<lceil>q\<rceil>)"
    have t: "\<bar>of_int k\<bar> \<le> \<bar>q\<bar> \<and> \<bar>q\<bar> < \<bar>of_int k\<bar> + 1 \<and> 0 \<le> of_int k * q"
      unfolding k_def by (rule truncation)
    have "\<exists>field. int_str k = Inr field" if "\<bar>q\<bar> < 10 ^ nat max_str_digits"
    proof -
      from t that have "(of_int \<bar>k\<bar> :: rat) < of_int (10 ^ nat max_str_digits)"
        by simp
      then have "\<bar>k\<bar> < 10 ^ nat max_str_digits"
        by (simp only: of_int_less_iff)
      then show ?thesis
        by (simp add: int_str_cases)
    qed
    moreover have "py_int (PFloat (Finite q)) = Inr k"
      by (simp add: py_int_def k_def)
    ultimately show "\<exists>k. py_int (PFloat (Finite q)) = Inr k \<and>
       \<bar>of_int k\<bar> \<le> \<bar>q\<bar> \<and> \<bar>q\<bar> < \<bar>of_int k\<bar> + 1 \<and> 0 \<le> of_int k * q \<and>
       (\<bar>q\<bar> < 10 ^ nat max_str_digits \<longrightarrow> (\<exists>field. int_str k = Inr field))"
      using t by blast
  qed
  have 6: "\<forall>i. \<bar>i\<bar> < 2 ^ 53 \<longrightarrow> py_float (PInt i) = Inr (Finite (of_int i))"
    by (intro allI impI) (rule py_float_small_int)
  have 7: "\<forall>i. int_str i =
       (if \<bar>i\<bar> < 10 ^ nat max_str_digits
        then Inr ((if i < 0 then ''-'' else []) @ digits10 \<bar>i\<bar>)
        else Inl ValueError)"
    by (intro allI) (rule int_str_cases)
  from 1 2 3 6 4 5 7 show ?thesis
    by (intro conjI)
qed

theorem coercions_without_validation_witness:
  "\<exists>cfg. setup_text (load_tables sample_db) ''Au'' (PFloat (Finite (- 5)))
       (PFloat (Finite (- 5 / 2))) (sample_lattice False) = Inr cfg \<and>
     contains_line cfg ''    variable T equal -50.0'' \<and>
     contains_line cfg ''    variable size equal -2'' \<and>
     submitted (new_trace console_world
       (snd (simulate (load_tables sample_db) obliging ''Au'' (PFloat (Finite (- 5)))
          (PFloat (Finite (- 5 / 2))) False console_world))) = [cfg]"
proof -
  have pf: "py_float (PFloat (Finite (- 5))) = Inr (Finite (- 5))"
    by (simp add: py_float_def)
  have "\<lceil>- 5 / 2 :: rat\<rceil> = - 2"
    by linarith
  then have pi: "py_int (PFloat (Finite (- 5 / 2))) = Inr (- 2)"
    by (simp add: py_int_def)
  have d: "''stdout.txt'' \<notin> set (denied console_world)"
    and l: "fst (obliging Lammps ((files console_world)(''stdout.txt'' \<mapsto> []),
      xstate console_world)) = Inr 0"
    by (simp_all add: console_world_fields obliging_def)
  from coercions_without_validation [where X = obliging and crystallize = False
      and w = console_world, OF sample_entries pf pi negative_strings(2) surjective_pairing]
    started_submits [where X = obliging and c = False and w = console_world,
      OF sample_lattice_parameter _ d l surjective_pairing]
  show ?thesis
    by (auto simp: sample_lattice_parameter negative_strings)
qed

text \<open>
  The claim C10 as stated has every real-valued temperature accepted.  An int too large
  for a double is not: \<open>float\<close> raises OverflowError for \<open>2 ** 1024\<close>, and the exception
  leaves \<open>simulate\<close>.
\<close>

theorem huge_int_temperature_counterexample:
  "fst (simulate (load_tables sample_db) obliging ''Au'' (PInt beyond_double) (PInt 3) False
      console_world) = Inl OverflowError"
  unfolding simulate_def
  by (simp add: action_defs sample_lattice_parameter setup_text_def ebind_def
      beyond_double_overflows obliging_def console_world_def)

end
